theory Spec2Isabelle
  imports Main "HOL-Library.Sublist"
begin

section \<open>The publishing script of the tech blog\<close>

text \<open>
  The program is \<^verbatim>\<open>src/scripts/publish.js\<close>: it reads the post index, renders each
  post's markdown and creates or updates the post on a WordPress site through its REST
  interface. The repository holds two more revisions of the same script: an earlier one in
  \<^verbatim>\<open>src/unnamed/part_007\<close>, with the same steps and the same payload, and one in the
  second half of \<^verbatim>\<open>src/unnamed/part_006\<close>, which adds the featured image. The
  latter is modelled in its own section, with the suffix \<open>_img\<close> where a name is shared.

  Everything outside the script is a parameter of the model: the file system, the markdown
  renderer, JavaScript's \<^verbatim>\<open>Date\<close>, \<^verbatim>\<open>encodeURIComponent\<close>,
  \<^verbatim>\<open>toLowerCase\<close> and \<^verbatim>\<open>trim\<close>, and the remote site. The remote site is a
  deterministic machine with a state of any type \<open>'s\<close>: each request takes the state and
  gives an answer and the next state. Answers are typed as the REST interface documents
  them: a collection for a \<^verbatim>\<open>GET\<close> with a query, one resource for a
  \<^verbatim>\<open>POST\<close> or \<^verbatim>\<open>PUT\<close>. Request headers (the credentials among them) are
  not modelled. The script is sequential (every asynchronous call is awaited), so it is a
  function from the world before to a result and the world after; a rejected promise or a
  thrown exception is the left summand of the result.
\<close>

subsection \<open>Values\<close>

datatype http_method = GET | POST | PUT

text \<open>A resource of the remote site, as far as the script reads it: \<^verbatim>\<open>id\<close>,
  \<^verbatim>\<open>name\<close>, \<^verbatim>\<open>slug\<close>.\<close>

datatype resource = Resource (rid: nat) (rname: string) (rslug: string)

text \<open>A JavaScript object literal sent as a request body: its keys in order, with the
  values the script puts there.\<close>

datatype jv = JStr string | JIds "nat list" | JId nat

type_synonym obj = "(string \<times> jv) list"

text \<open>What \<^verbatim>\<open>https.request\<close> comes back with: a response with its status code, its
  raw text and the decoded document; an \<^verbatim>\<open>error\<close> event, with the \<^verbatim>\<open>code\<close> and
  the \<^verbatim>\<open>message\<close> of the error as they print; or nothing within the time limit.\<close>

datatype 'a http_result = Response nat string 'a | SocketError string string | NoResponse

datatype error = Error string | TypeError string | RangeError string | URIError string

fun message :: "error \<Rightarrow> string" where
  "message (Error m) = m"
| "message (TypeError m) = m"
| "message (RangeError m) = m"
| "message (URIError m) = m"

datatype level = log | warn | err

text \<open>What the \<^verbatim>\<open>get\<close> of an image comes back with: a response with its status code,
  its \<^verbatim>\<open>location\<close> and \<^verbatim>\<open>content-type\<close> headers and its bytes; an
  \<^verbatim>\<open>error\<close> event with its message; or the call itself throws, as it does for an
  address that is not an absolute URL of the module's protocol, and no request is made.\<close>

datatype download =
    Received nat "string option" "string option" string
  | Broken string
  | Thrown string

text \<open>How an asynchronous step of the revision with featured images ends: its promise is
  fulfilled, or rejected, or an exception is thrown outside every promise. The last ends
  the process where it is thrown: no \<^verbatim>\<open>catch\<close> of the script sees it.\<close>

datatype 'a settled = Fulfilled 'a | Rejected error | Uncaught string

text \<open>The trace of a run: the requests on the REST interface, the image downloads (the
  address asked), the media uploads (address, file name, content type), the console lines
  and the pauses.\<close>

datatype event =
    Request http_method string "obj option"
  | Fetch string
  | Upload string string string
  | Console level string
  | Delay nat

text \<open>One entry of \<^verbatim>\<open>blogs.json\<close>. \<open>tags\<close> is \<open>None\<close> when the entry has no
  \<^verbatim>\<open>tags\<close> key, \<open>featuredImage\<close> likewise.\<close>

record postMeta =
  slug :: string
  title :: string
  excerpt :: string
  date :: string
  tags :: "string list option"
  featuredImage :: "string option"

record config =
  WP_URL :: string
  WP_USERNAME :: string
  WP_APP_PASSWORD :: string

record 's host =
  existsSync :: "string \<Rightarrow> bool"
  readFileSync :: "string \<Rightarrow> string + string"
  blogs_json :: "string + postMeta list"
  marked_parse :: "string \<Rightarrow> string"
  toISOString :: "string \<Rightarrow> string option"
  encodeURIComponent :: "string \<Rightarrow> string option"
  toLowerCase :: "string \<Rightarrow> string"
  trim :: "string \<Rightarrow> string"
  URL_valid :: "string \<Rightarrow> bool"
  https_get :: "string \<Rightarrow> 's \<Rightarrow> resource list http_result \<times> 's"
  https_send :: "http_method \<Rightarrow> string \<Rightarrow> obj \<Rightarrow> 's \<Rightarrow> resource http_result \<times> 's"
  image_get :: "bool \<Rightarrow> string \<Rightarrow> 's \<Rightarrow> download \<times> 's"
  media_post :: "string \<Rightarrow> string \<Rightarrow> string \<Rightarrow> string \<Rightarrow> 's \<Rightarrow> resource http_result \<times> 's"

text \<open>
  \<^item> \<open>readFileSync\<close> is \<open>Inl\<close> with the message where \<^verbatim>\<open>fs.readFileSync\<close> throws;
  \<^item> \<open>blogs_json\<close> is the \<^verbatim>\<open>posts\<close> array of the index, \<open>Inl\<close> with the message where
    reading it or \<^verbatim>\<open>JSON.parse\<close> throws;
  \<^item> \<open>toISOString d\<close> is \<^verbatim>\<open>new Date(d).toISOString()\<close>, \<open>None\<close> where it throws
    (the date is invalid);
  \<^item> \<open>encodeURIComponent\<close> is \<open>None\<close> where it throws;
  \<^item> \<open>URL_valid u\<close> tells whether \<^verbatim>\<open>new URL(u)\<close> returns;
  \<^item> \<open>image_get secure url\<close> is the \<^verbatim>\<open>get\<close> of the \<^verbatim>\<open>https\<close> module when
    \<open>secure\<close> holds and of the \<^verbatim>\<open>http\<close> module otherwise;
  \<^item> \<open>media_post url contentType filename bytes\<close> is the upload request.
  \<open>trim\<close> and the last two are used by the revision with featured images only.
\<close>

record 's world =
  remote :: 's
  trace :: "event list"

type_synonym ('s, 'a) io = "'s world \<Rightarrow> (error + 'a) \<times> 's world"

subsection \<open>Sequencing\<close>

definition emit :: "event \<Rightarrow> 's world \<Rightarrow> 's world" where
  "emit e w = w\<lparr>trace := trace w @ [e]\<rparr>"

definition console :: "level \<Rightarrow> string \<Rightarrow> 's world \<Rightarrow> 's world" where
  "console l s w = emit (Console l s) w"

text \<open>\<^verbatim>\<open>await m\<close> followed by the rest of the function: a rejection leaves the function.\<close>

definition await :: "('s, 'a) io \<Rightarrow> ('a \<Rightarrow> ('s, 'b) io) \<Rightarrow> ('s, 'b) io" where
  "await m f w = (case m w of (Inl e, w1) \<Rightarrow> (Inl e, w1) | (Inr a, w1) \<Rightarrow> f a w1)"

text \<open>\<^verbatim>\<open>function delay(ms)\<close>: the pause is recorded, nothing else happens.\<close>

definition delay :: "nat \<Rightarrow> 's world \<Rightarrow> 's world" where
  "delay ms w = emit (Delay ms) w"

subsection \<open>Text\<close>

definition quote :: string where
  "quote = [CHR 0x22]"

definition nl :: string where
  "nl = [CHR 0x0A]"

fun show_nat :: "nat \<Rightarrow> string" where
  "show_nat n =
     (if n < 10 then [''0123456789'' ! n]
      else show_nat (n div 10) @ [''0123456789'' ! (n mod 10)])"

declare show_nat.simps [simp del]

fun method_name :: "http_method \<Rightarrow> string" where
  "method_name GET = ''GET''"
| "method_name POST = ''POST''"
| "method_name PUT = ''PUT''"

subsection \<open>Configuration (lines 7 to 21)\<close>

text \<open>\<^verbatim>\<open>s.replace(/\/$/, "")\<close>: the pattern matches one slash at the end of the
  string.\<close>

definition strip_slash :: "string \<Rightarrow> string" where
  "strip_slash s = (if s \<noteq> [] \<and> last s = CHR ''/'' then butlast s else s)"

text \<open>\<^verbatim>\<open>process.env\<close> is a map from names to strings. The three constants, and the test
  \<^verbatim>\<open>!WP_URL || !WP_USERNAME || !WP_APP_PASSWORD\<close>: an absent variable and the empty
  string are both falsy. \<open>None\<close> is the branch that calls \<^verbatim>\<open>process.exit(1)\<close>.\<close>

definition falsy :: "string option \<Rightarrow> bool" where
  "falsy v = (v = None \<or> v = Some [])"

definition load_config :: "(string \<Rightarrow> string option) \<Rightarrow> config option" where
  "load_config env =
     (let url = map_option strip_slash (env ''WP_URL'');
          username = env ''WP_USERNAME'';
          password = env ''WP_APP_PASSWORD''
      in if falsy url \<or> falsy username \<or> falsy password then None
         else case (url, username, password) of
                (Some u, Some n, Some p) \<Rightarrow>
                  Some \<lparr>WP_URL = u, WP_USERNAME = n, WP_APP_PASSWORD = p\<rparr>
              | _ \<Rightarrow> None)"

definition API_BASE :: "config \<Rightarrow> string" where
  "API_BASE cfg = WP_URL cfg @ ''/wp-json/wp/v2''"

subsection \<open>\<^verbatim>\<open>wpRequest\<close> (lines 37 to 85)\<close>

text \<open>The part common to every call: the status test of the \<^verbatim>\<open>end\<close> handler, the
  \<^verbatim>\<open>error\<close> handler and the 30 second limit.\<close>

definition settle :: "http_method \<Rightarrow> string \<Rightarrow> 'a http_result \<Rightarrow> error + 'a" where
  "settle m endpoint r =
     (case r of
        Response statusCode data doc \<Rightarrow>
          if 200 \<le> statusCode \<and> statusCode < 300 then Inr doc
          else Inl (Error (''API '' @ show_nat statusCode @ '' on '' @ method_name m @ '' ''
                           @ endpoint @ '': '' @ take 200 data))
      | SocketError code m' \<Rightarrow>
          Inl (Error (''Network error on '' @ method_name m @ '' '' @ endpoint @ '': '' @ m'))
      | NoResponse \<Rightarrow>
          Inl (Error (''Timeout on '' @ method_name m @ '' '' @ endpoint)))"

text \<open>\<^verbatim>\<open>wpRequest(endpoint)\<close>, with the defaults \<^verbatim>\<open>method = "GET"\<close> and
  \<^verbatim>\<open>body = null\<close>.\<close>

definition wpRequest :: "'s host \<Rightarrow> config \<Rightarrow> string \<Rightarrow> ('s, resource list) io" where
  "wpRequest h cfg endpoint w =
     (let url = API_BASE cfg @ endpoint
      in if \<not> URL_valid h url then (Inl (TypeError ''Invalid URL''), w)
         else case https_get h url (remote w) of
                (r, s) \<Rightarrow> (settle GET endpoint r,
                           emit (Request GET url None) (w\<lparr>remote := s\<rparr>)))"

text \<open>\<^verbatim>\<open>wpRequest(endpoint, method, body)\<close> with a body.\<close>

definition wpRequest_body ::
  "'s host \<Rightarrow> config \<Rightarrow> string \<Rightarrow> http_method \<Rightarrow> obj \<Rightarrow> ('s, resource) io" where
  "wpRequest_body h cfg endpoint m body w =
     (let url = API_BASE cfg @ endpoint
      in if \<not> URL_valid h url then (Inl (TypeError ''Invalid URL''), w)
         else case https_send h m url body (remote w) of
                (r, s) \<Rightarrow> (settle m endpoint r,
                           emit (Request m url (Some body)) (w\<lparr>remote := s\<rparr>)))"

subsection \<open>Lookups (lines 92 to 125)\<close>

definition getExistingPost :: "'s host \<Rightarrow> config \<Rightarrow> string \<Rightarrow> ('s, resource option) io" where
  "getExistingPost h cfg slug' =
     await (wpRequest h cfg (''/posts?slug='' @ slug' @ ''&status=publish,draft,pending''))
       (\<lambda>posts w. (Inr (case posts of [] \<Rightarrow> None | p # _ \<Rightarrow> Some p), w))"

definition getOrCreateTag :: "'s host \<Rightarrow> config \<Rightarrow> string \<Rightarrow> ('s, nat) io" where
  "getOrCreateTag h cfg tagName w =
     (case encodeURIComponent h tagName of
        None \<Rightarrow> (Inl (URIError ''URI malformed''), w)
      | Some q \<Rightarrow>
          await (wpRequest h cfg (''/tags?search='' @ q))
            (\<lambda>existing w1.
               case find (\<lambda>t. toLowerCase h (rname t) = toLowerCase h tagName) existing of
                 Some match \<Rightarrow> (Inr (rid match), w1)
               | None \<Rightarrow>
                   await (wpRequest_body h cfg ''/tags'' POST [(''name'', JStr tagName)])
                     (\<lambda>tag w2. (Inr (rid tag), w2)) (delay 300 w1)) w)"

definition getOrCreateCategory :: "'s host \<Rightarrow> config \<Rightarrow> string \<Rightarrow> ('s, nat) io" where
  "getOrCreateCategory h cfg name w =
     (case encodeURIComponent h name of
        None \<Rightarrow> (Inl (URIError ''URI malformed''), w)
      | Some q \<Rightarrow>
          await (wpRequest h cfg (''/categories?search='' @ q))
            (\<lambda>existing w1.
               case find (\<lambda>c. toLowerCase h (rname c) = toLowerCase h name) existing of
                 Some match \<Rightarrow> (Inr (rid match), w1)
               | None \<Rightarrow>
                   await (wpRequest_body h cfg ''/categories'' POST [(''name'', JStr name)])
                     (\<lambda>cat w2. (Inr (rid cat), w2)) (delay 300 w1)) w)"

subsection \<open>\<^verbatim>\<open>publishPost\<close> (lines 127 to 180)\<close>

text \<open>\<^verbatim>\<open>path.join(__dirname, "..", "posts", `${slug}.md`)\<close>, relative to the directory
  of the script.\<close>

definition mdPath :: "string \<Rightarrow> string" where
  "mdPath slug' = ''../posts/'' @ slug' @ ''.md''"

text \<open>The loop of lines 140 to 149 over \<^verbatim>\<open>tags || []\<close>. The \<^verbatim>\<open>try\<close> encloses
  the whole body, so the loop itself never throws.\<close>

fun resolveTags ::
  "'s host \<Rightarrow> config \<Rightarrow> string list \<Rightarrow> nat list \<Rightarrow> 's world \<Rightarrow> nat list \<times> 's world" where
  "resolveTags h cfg [] tagIds w = (tagIds, w)"
| "resolveTags h cfg (tag # rest) tagIds w =
     (case getOrCreateTag h cfg tag w of
        (Inr tagId, w1) \<Rightarrow> resolveTags h cfg rest (tagIds @ [tagId]) (delay 200 w1)
      | (Inl e, w1) \<Rightarrow>
          resolveTags h cfg rest tagIds
            (console warn (''  Warning: Could not create tag '' @ quote @ tag @ quote
                           @ '': '' @ message e) w1))"

text \<open>Lines 151 to 158.\<close>

definition resolveCategory :: "'s host \<Rightarrow> config \<Rightarrow> 's world \<Rightarrow> nat list \<times> 's world" where
  "resolveCategory h cfg w =
     (case getOrCreateCategory h cfg ''Blog'' w of
        (Inr blogCatId, w1) \<Rightarrow> ([blogCatId], w1)
      | (Inl e, w1) \<Rightarrow>
          ([], console warn (''  Warning: Could not get/create category: '' @ message e) w1))"

text \<open>The object literal of lines 160 to 169, for an ISO date already computed.\<close>

definition postData :: "postMeta \<Rightarrow> string \<Rightarrow> string \<Rightarrow> nat list \<Rightarrow> nat list \<Rightarrow> obj" where
  "postData p htmlContent isoDate tagIds categoryIds =
     [(''title'', JStr (title p)),
      (''slug'', JStr (slug p)),
      (''content'', JStr htmlContent),
      (''excerpt'', JStr (excerpt p)),
      (''status'', JStr ''publish''),
      (''date'', JStr isoDate),
      (''tags'', JIds tagIds),
      (''categories'', JIds categoryIds)]"

text \<open>Lines 171 to 179: the existence check, then the update or the create.\<close>

definition upsert :: "'s host \<Rightarrow> config \<Rightarrow> postMeta \<Rightarrow> obj \<Rightarrow> ('s, unit) io" where
  "upsert h cfg p body =
     await (getExistingPost h cfg (slug p))
       (\<lambda>existing.
          case existing of
            Some found \<Rightarrow>
              await (wpRequest_body h cfg (''/posts/'' @ show_nat (rid found)) PUT body)
                (\<lambda>_ w. (Inr (), console log (''  Updated: '' @ quote @ title p @ quote) w))
          | None \<Rightarrow>
              await (wpRequest_body h cfg ''/posts'' POST body)
                (\<lambda>_ w. (Inr (), console log (''  Published: '' @ quote @ title p @ quote) w)))"

definition publishPost :: "'s host \<Rightarrow> config \<Rightarrow> postMeta \<Rightarrow> ('s, unit) io" where
  "publishPost h cfg p w =
     (if \<not> existsSync h (mdPath (slug p))
      then (Inr (), console warn (''  Skipping '' @ quote @ slug p @ quote
                                  @ '' - markdown file not found'') w)
      else case readFileSync h (mdPath (slug p)) of
             Inl m \<Rightarrow> (Inl (Error m), w)
           | Inr markdown \<Rightarrow>
               (let htmlContent = marked_parse h markdown;
                    (tagIds, w1) = resolveTags h cfg (case tags p of None \<Rightarrow> [] | Some ts \<Rightarrow> ts) [] w;
                    (categoryIds, w2) = resolveCategory h cfg w1
                in case toISOString h (date p) of
                     None \<Rightarrow> (Inl (RangeError ''Invalid time value''), w2)
                   | Some isoDate \<Rightarrow>
                       upsert h cfg p (postData p htmlContent isoDate tagIds categoryIds) w2))"

subsection \<open>\<^verbatim>\<open>main\<close> (lines 182 to 225)\<close>

text \<open>The loop of lines 206 to 215, with the two counters.\<close>

fun publishAll ::
  "'s host \<Rightarrow> config \<Rightarrow> postMeta list \<Rightarrow> nat \<times> nat \<Rightarrow> 's world \<Rightarrow> (nat \<times> nat) \<times> 's world" where
  "publishAll h cfg [] (success, failed) w = ((success, failed), w)"
| "publishAll h cfg (post # rest) (success, failed) w =
     (case publishPost h cfg post w of
        (Inr _, w1) \<Rightarrow> publishAll h cfg rest (success + 1, failed) (delay 500 w1)
      | (Inl e, w1) \<Rightarrow>
          publishAll h cfg rest (success, failed + 1)
            (console err (''  Failed: '' @ quote @ title post @ quote @ '' - '' @ message e) w1))"

text \<open>\<^verbatim>\<open>main\<close> and the \<^verbatim>\<open>catch\<close> of its call. The result is the exit code of the
  process: 1 where \<^verbatim>\<open>process.exit(1)\<close> is called, 0 where the script runs to its
  end.\<close>

definition main :: "'s host \<Rightarrow> config \<Rightarrow> 's world \<Rightarrow> nat \<times> 's world" where
  "main h cfg w =
     (let w0 = console log ''Testing API connectivity...''
                 (console log (nl @ ''Publishing to: '' @ WP_URL cfg) w)
      in case wpRequest h cfg ''/posts?per_page=1'' w0 of
           (Inl e, w1) \<Rightarrow>
             (1, console err ''Check WP_URL, WP_USERNAME, and WP_APP_PASSWORD secrets are correct.''
                   (console err (''Cannot reach WordPress API: '' @ message e) w1))
         | (Inr _, w1) \<Rightarrow>
             (case blogs_json h of
                Inl m \<Rightarrow>
                  (1, console err (''Fatal error: '' @ m) (console log (''API connection OK'' @ nl) w1))
              | Inr posts \<Rightarrow>
                  (let w2 = console log (''Found '' @ show_nat (length posts)
                                         @ '' posts in blogs.json'' @ nl)
                              (console log (''API connection OK'' @ nl) w1);
                       ((success, failed), w3) = publishAll h cfg posts (0, 0) w2;
                       w4 = console log (nl @ ''Done! '' @ show_nat success @ '' published, ''
                                         @ show_nat failed @ '' failed.'' @ nl) w3
                   in (if failed > 0 then 1 else 0, w4))))"

text \<open>The whole script: the test of line 11, then \<^verbatim>\<open>main\<close>.\<close>

definition script :: "'s host \<Rightarrow> (string \<Rightarrow> string option) \<Rightarrow> 's world \<Rightarrow> nat \<times> 's world" where
  "script h env w =
     (case load_config env of
        None \<Rightarrow>
          (1, console err ''Missing environment variables: WP_URL, WP_USERNAME, WP_APP_PASSWORD'' w)
      | Some cfg \<Rightarrow> main h cfg w)"

section \<open>The revision with featured images\<close>

text \<open>
  The script in the second half of \<^verbatim>\<open>src/unnamed/part_006\<close> (from line 41 of that
  file; the line numbers below are those of the file). It differs from
  \<^verbatim>\<open>src/scripts/publish.js\<close> in the texts of its messages, in the existence check
  (no status filter), in the silent \<^verbatim>\<open>catch\<close> of the tag and category steps, in the
  optional keys of the payload, and it adds the featured image. Its definitions carry the
  suffix \<open>_img\<close> where the name is taken.
\<close>

subsection \<open>Configuration (lines 48 to 59)\<close>

text \<open>\<^verbatim>\<open>process.env.WP_URL?.trim()?.replace(/\/$/, "") || ""\<close>, the same test as
  before on the three values, then \<^verbatim>\<open>https://\<close> in front of a value that does not
  start with \<^verbatim>\<open>http\<close>.\<close>

definition load_config_img :: "'s host \<Rightarrow> (string \<Rightarrow> string option) \<Rightarrow> config option" where
  "load_config_img h env =
     (let url = (case env ''WP_URL'' of None \<Rightarrow> [] | Some v \<Rightarrow> strip_slash (trim h v));
          username = map_option (trim h) (env ''WP_USERNAME'');
          password = map_option (trim h) (env ''WP_APP_PASSWORD'')
      in if url = [] \<or> falsy username \<or> falsy password then None
         else case (username, password) of
                (Some n, Some p) \<Rightarrow>
                  Some \<lparr>WP_URL = (if prefix ''http'' url then url else ''https://'' @ url),
                        WP_USERNAME = n, WP_APP_PASSWORD = p\<rparr>
              | _ \<Rightarrow> None)"

subsection \<open>Requests (lines 78 to 195)\<close>

definition settle_img :: "http_method \<Rightarrow> string \<Rightarrow> 'a http_result \<Rightarrow> error + 'a" where
  "settle_img m endpoint r =
     (case r of
        Response statusCode data doc \<Rightarrow>
          if 200 \<le> statusCode \<and> statusCode < 300 then Inr doc
          else Inl (Error (''API '' @ show_nat statusCode @ '' '' @ method_name m @ '' ''
                           @ endpoint @ '': '' @ take 200 data))
      | SocketError code m' \<Rightarrow>
          Inl (Error (''Network '' @ method_name m @ '' '' @ endpoint @ '': '' @ code @ '' ''
                      @ m'))
      | NoResponse \<Rightarrow>
          Inl (Error (''Timeout '' @ method_name m @ '' '' @ endpoint)))"

definition wpRequest_img :: "'s host \<Rightarrow> config \<Rightarrow> string \<Rightarrow> ('s, resource list) io" where
  "wpRequest_img h cfg endpoint w =
     (let url = API_BASE cfg @ endpoint
      in if \<not> URL_valid h url then (Inl (TypeError ''Invalid URL''), w)
         else case https_get h url (remote w) of
                (r, s) \<Rightarrow> (settle_img GET endpoint r,
                           emit (Request GET url None) (w\<lparr>remote := s\<rparr>)))"

definition wpRequest_body_img ::
  "'s host \<Rightarrow> config \<Rightarrow> string \<Rightarrow> http_method \<Rightarrow> obj \<Rightarrow> ('s, resource) io" where
  "wpRequest_body_img h cfg endpoint m body w =
     (let url = API_BASE cfg @ endpoint
      in if \<not> URL_valid h url then (Inl (TypeError ''Invalid URL''), w)
         else case https_send h m url body (remote w) of
                (r, s) \<Rightarrow> (settle_img m endpoint r,
                           emit (Request m url (Some body)) (w\<lparr>remote := s\<rparr>)))"

text \<open>A promise that settles as a step of type \<open>io\<close> does.\<close>

definition of_io :: "(error + 'a) \<times> 's world \<Rightarrow> 'a settled \<times> 's world" where
  "of_io r = (case r of (Inl e, w) \<Rightarrow> (Rejected e, w) | (Inr a, w) \<Rightarrow> (Fulfilled a, w))"

text \<open>\<^verbatim>\<open>doRequest\<close> of \<^verbatim>\<open>downloadImage\<close> (lines 127 to 148). A header that is absent
  or empty is falsy. The recursion follows a redirect with one more on the counter and
  stops above five. The first call (\<open>redirects = 0\<close>) is made by the executor of the
  promise, where a throw of \<^verbatim>\<open>get\<close> rejects the promise; the calls for a redirect are
  made by the response callback, where a throw of \<^verbatim>\<open>get\<close> is caught by nothing.\<close>

function doRequest ::
  "'s host \<Rightarrow> string \<Rightarrow> nat \<Rightarrow> 's world \<Rightarrow> (string \<times> string) settled \<times> 's world" where
  "doRequest h url redirects w =
     (if redirects > 5 then (Rejected (Error ''Too many redirects''), w)
      else case image_get h (prefix ''https'' url) url (remote w) of
             (Thrown m, s) \<Rightarrow>
               (if redirects = 0 then (Rejected (TypeError m), w) else (Uncaught m, w))
           | (Broken m, s) \<Rightarrow> (Rejected (Error m), emit (Fetch url) (w\<lparr>remote := s\<rparr>))
           | (Received statusCode location contentType bytes, s) \<Rightarrow>
               (let w1 = emit (Fetch url) (w\<lparr>remote := s\<rparr>)
                in if 300 \<le> statusCode \<and> statusCode < 400 \<and> \<not> falsy location
                   then doRequest h (case location of Some l \<Rightarrow> l | None \<Rightarrow> []) (redirects + 1) w1
                   else if statusCode \<noteq> 200
                   then (Rejected (Error (''Image download failed: '' @ show_nat statusCode)), w1)
                   else (Fulfilled (bytes, if falsy contentType then ''image/jpeg''
                                           else (case contentType of Some c \<Rightarrow> c | None \<Rightarrow> [])),
                         w1)))"
  by pat_completeness auto
termination
  by (relation "measure (\<lambda>(h, url, redirects, w). 6 - redirects)") auto

declare doRequest.simps [simp del]

definition downloadImage ::
  "'s host \<Rightarrow> string \<Rightarrow> 's world \<Rightarrow> (string \<times> string) settled \<times> 's world" where
  "downloadImage h imageUrl = doRequest h imageUrl 0"

text \<open>\<^verbatim>\<open>uploadMedia\<close> (lines 153 to 195).\<close>

definition uploadMedia ::
  "'s host \<Rightarrow> config \<Rightarrow> string \<Rightarrow> string \<Rightarrow> string \<Rightarrow> ('s, resource) io" where
  "uploadMedia h cfg imageBuffer filename contentType w =
     (let url = API_BASE cfg @ ''/media''
      in if \<not> URL_valid h url then (Inl (TypeError ''Invalid URL''), w)
         else case media_post h url contentType filename imageBuffer (remote w) of
                (r, s) \<Rightarrow>
                  (case r of
                     Response statusCode data doc \<Rightarrow>
                       if 200 \<le> statusCode \<and> statusCode < 300 then Inr doc
                       else Inl (Error (''Media upload '' @ show_nat statusCode @ '': ''
                                        @ take 200 data))
                   | SocketError code m \<Rightarrow> Inl (Error (''Media upload error: '' @ m))
                   | NoResponse \<Rightarrow> Inl (Error ''Media upload timeout''),
                   emit (Upload url filename contentType) (w\<lparr>remote := s\<rparr>)))"

subsection \<open>Lookups (lines 203 to 256)\<close>

definition getExistingPost_img :: "'s host \<Rightarrow> config \<Rightarrow> string \<Rightarrow> ('s, resource option) io" where
  "getExistingPost_img h cfg slug' =
     await (wpRequest_img h cfg (''/posts?slug='' @ slug'))
       (\<lambda>posts w. (Inr (case posts of [] \<Rightarrow> None | p # _ \<Rightarrow> Some p), w))"

definition getOrCreateTag_img :: "'s host \<Rightarrow> config \<Rightarrow> string \<Rightarrow> ('s, nat) io" where
  "getOrCreateTag_img h cfg tagName w =
     (case encodeURIComponent h tagName of
        None \<Rightarrow> (Inl (URIError ''URI malformed''), w)
      | Some q \<Rightarrow>
          await (wpRequest_img h cfg (''/tags?search='' @ q))
            (\<lambda>existing w1.
               case find (\<lambda>t. toLowerCase h (rname t) = toLowerCase h tagName) existing of
                 Some match \<Rightarrow> (Inr (rid match), w1)
               | None \<Rightarrow>
                   await (wpRequest_body_img h cfg ''/tags'' POST [(''name'', JStr tagName)])
                     (\<lambda>tag w2. (Inr (rid tag), w2)) (delay 300 w1)) w)"

definition getOrCreateCategory_img :: "'s host \<Rightarrow> config \<Rightarrow> string \<Rightarrow> ('s, nat) io" where
  "getOrCreateCategory_img h cfg name w =
     (case encodeURIComponent h name of
        None \<Rightarrow> (Inl (URIError ''URI malformed''), w)
      | Some q \<Rightarrow>
          await (wpRequest_img h cfg (''/categories?search='' @ q))
            (\<lambda>existing w1.
               case find (\<lambda>c. toLowerCase h (rname c) = toLowerCase h name) existing of
                 Some match \<Rightarrow> (Inr (rid match), w1)
               | None \<Rightarrow>
                   await (wpRequest_body_img h cfg ''/categories'' POST [(''name'', JStr name)])
                     (\<lambda>cat w2. (Inr (rid cat), w2)) (delay 300 w1)) w)"

text \<open>The part of \<^verbatim>\<open>setFeaturedImage\<close> after the search (lines 251 to 255):
  download, then upload. \<^verbatim>\<open>(buffer.length / 1024).toFixed(0)\<close> rounds to the nearest
  integer, halves upwards.\<close>

definition fetchAndUpload ::
  "'s host \<Rightarrow> config \<Rightarrow> string \<Rightarrow> string \<Rightarrow> 's world \<Rightarrow> nat option settled \<times> 's world" where
  "fetchAndUpload h cfg slug' imageUrl w =
     (case downloadImage h imageUrl
             (console log (''    Downloading image for '' @ slug' @ ''...'') w) of
        (Fulfilled (buffer, contentType), w1) \<Rightarrow>
          of_io (await (uploadMedia h cfg buffer (slug' @ ''-featured.jpg'') contentType)
                   (\<lambda>media w2. (Inr (Some (rid media)), w2))
                   (console log (''    Uploading to WordPress (''
                                 @ show_nat ((length buffer + 512) div 1024) @ ''KB)...'') w1))
      | (Rejected e, w1) \<Rightarrow> (Rejected e, w1)
      | (Uncaught m, w1) \<Rightarrow> (Uncaught m, w1))"

text \<open>\<^verbatim>\<open>setFeaturedImage\<close> (lines 234 to 256). The result \<open>None\<close> is
  \<^verbatim>\<open>null\<close>. The \<^verbatim>\<open>try\<close> around the search catches every failure of it, and the
  function goes on to the download.\<close>

definition setFeaturedImage ::
  "'s host \<Rightarrow> config \<Rightarrow> string \<Rightarrow> string option \<Rightarrow> 's world
     \<Rightarrow> nat option settled \<times> 's world" where
  "setFeaturedImage h cfg slug' imageUrl w =
     (if falsy imageUrl then (Fulfilled None, w)
      else
        (let url = (case imageUrl of Some u \<Rightarrow> u | None \<Rightarrow> []);
             searched =
               (case encodeURIComponent h slug' of
                  None \<Rightarrow> (Inl (URIError ''URI malformed''), w)
                | Some q \<Rightarrow> wpRequest_img h cfg (''/media?search='' @ q @ ''&per_page=5'') w)
         in case searched of
              (Inr existing, w1) \<Rightarrow>
                (case find (\<lambda>m. rslug m \<noteq> [] \<and> sublist slug' (rslug m)) existing of
                   Some match \<Rightarrow> (Fulfilled (Some (rid match)), w1)
                 | None \<Rightarrow> fetchAndUpload h cfg slug' url w1)
            | (Inl e, w1) \<Rightarrow> fetchAndUpload h cfg slug' url w1))"

subsection \<open>\<^verbatim>\<open>publishPost\<close> (lines 260 to 317)\<close>

fun resolveTags_img ::
  "'s host \<Rightarrow> config \<Rightarrow> string list \<Rightarrow> nat list \<Rightarrow> 's world \<Rightarrow> nat list \<times> 's world" where
  "resolveTags_img h cfg [] tagIds w = (tagIds, w)"
| "resolveTags_img h cfg (tag # rest) tagIds w =
     (case getOrCreateTag_img h cfg tag w of
        (Inr tagId, w1) \<Rightarrow> resolveTags_img h cfg rest (tagIds @ [tagId]) (delay 200 w1)
      | (Inl e, w1) \<Rightarrow> resolveTags_img h cfg rest tagIds w1)"

definition resolveCategory_img :: "'s host \<Rightarrow> config \<Rightarrow> 's world \<Rightarrow> nat list \<times> 's world" where
  "resolveCategory_img h cfg w =
     (case getOrCreateCategory_img h cfg ''Blog'' w of
        (Inr blogCatId, w1) \<Rightarrow> ([blogCatId], w1)
      | (Inl e, w1) \<Rightarrow> ([], w1))"

text \<open>Lines 287 to 293: the image step, with its \<^verbatim>\<open>catch\<close>, which sees a
  rejection. \<open>Inl\<close> is the message of an exception that ended the process.\<close>

definition resolveImage ::
  "'s host \<Rightarrow> config \<Rightarrow> postMeta \<Rightarrow> 's world \<Rightarrow> (string + nat option) \<times> 's world" where
  "resolveImage h cfg p w =
     (case setFeaturedImage h cfg (slug p) (featuredImage p) w of
        (Fulfilled featuredMediaId, w1) \<Rightarrow> (Inr featuredMediaId, w1)
      | (Rejected e, w1) \<Rightarrow> (Inr None, console warn (''    Image failed: '' @ message e) w1)
      | (Uncaught m, w1) \<Rightarrow> (Inl m, w1))"

text \<open>Lines 295 to 306: the object literal and the three optional keys. An id is truthy
  when it is not 0.\<close>

definition postData_img ::
  "postMeta \<Rightarrow> string \<Rightarrow> string \<Rightarrow> nat list \<Rightarrow> nat list \<Rightarrow> nat option \<Rightarrow> obj" where
  "postData_img p htmlContent isoDate tagIds categoryIds featuredMediaId =
     [(''title'', JStr (title p)),
      (''slug'', JStr (slug p)),
      (''content'', JStr htmlContent),
      (''excerpt'', JStr (excerpt p)),
      (''status'', JStr ''publish''),
      (''date'', JStr isoDate)]
     @ (if length tagIds > 0 then [(''tags'', JIds tagIds)] else [])
     @ (if length categoryIds > 0 then [(''categories'', JIds categoryIds)] else [])
     @ (case featuredMediaId of
          Some n \<Rightarrow> if n \<noteq> 0 then [(''featured_media'', JId n)] else []
        | None \<Rightarrow> [])"

definition upsert_img :: "'s host \<Rightarrow> config \<Rightarrow> postMeta \<Rightarrow> obj \<Rightarrow> ('s, unit) io" where
  "upsert_img h cfg p body =
     await (getExistingPost_img h cfg (slug p))
       (\<lambda>existing.
          case existing of
            Some found \<Rightarrow>
              await (wpRequest_body_img h cfg (''/posts/'' @ show_nat (rid found)) PUT body)
                (\<lambda>_ w. (Inr (), console log (''  Updated: '' @ quote @ title p @ quote) w))
          | None \<Rightarrow>
              await (wpRequest_body_img h cfg ''/posts'' POST body)
                (\<lambda>_ w. (Inr (), console log (''  Published: '' @ quote @ title p @ quote) w)))"

definition publishPost_img ::
  "'s host \<Rightarrow> config \<Rightarrow> postMeta \<Rightarrow> 's world \<Rightarrow> unit settled \<times> 's world" where
  "publishPost_img h cfg p w =
     (if \<not> existsSync h (mdPath (slug p))
      then (Fulfilled (), console warn (''  Skipping '' @ quote @ slug p @ quote
                                        @ '' - file not found'') w)
      else case readFileSync h (mdPath (slug p)) of
             Inl m \<Rightarrow> (Rejected (Error m), w)
           | Inr markdown \<Rightarrow>
               (let htmlContent = marked_parse h markdown;
                    (tagIds, w1) = resolveTags_img h cfg (case tags p of None \<Rightarrow> [] | Some ts \<Rightarrow> ts) [] w;
                    (categoryIds, w2) = resolveCategory_img h cfg w1
                in case resolveImage h cfg p w2 of
                     (Inl m, w3) \<Rightarrow> (Uncaught m, w3)
                   | (Inr featuredMediaId, w3) \<Rightarrow>
                       (case toISOString h (date p) of
                          None \<Rightarrow> (Rejected (RangeError ''Invalid time value''), w3)
                        | Some isoDate \<Rightarrow>
                            of_io (upsert_img h cfg p
                                     (postData_img p htmlContent isoDate tagIds categoryIds
                                        featuredMediaId)
                                     w3))))"

section \<open>Observing a run\<close>

text \<open>The events a run adds to the trace of the world it started in, and the property
  that a run only adds events, all of them of one kind.\<close>

definition issued :: "'s world \<Rightarrow> 's world \<Rightarrow> event list" where
  "issued w w' = drop (length (trace w)) (trace w')"

definition emits :: "(event \<Rightarrow> bool) \<Rightarrow> 's world \<Rightarrow> 's world \<Rightarrow> bool" where
  "emits P w w' \<longleftrightarrow> (\<exists>es. trace w' = trace w @ es \<and> (\<forall>e\<in>set es. P e))"

text \<open>The requests of a trace, by the resource they address.\<close>

definition is_request :: "event \<Rightarrow> bool" where
  "is_request e = (case e of Request m url b \<Rightarrow> True | _ \<Rightarrow> False)"

definition posts_request :: "config \<Rightarrow> event \<Rightarrow> bool" where
  "posts_request cfg e =
     (case e of Request m url b \<Rightarrow> prefix (API_BASE cfg @ ''/posts'') url | _ \<Rightarrow> False)"

definition category_search :: "config \<Rightarrow> event \<Rightarrow> bool" where
  "category_search cfg e =
     (case e of Request m url b \<Rightarrow> m = GET \<and> prefix (API_BASE cfg @ ''/categories?search='') url
      | _ \<Rightarrow> False)"

definition tag_event :: "config \<Rightarrow> event \<Rightarrow> bool" where
  "tag_event cfg e =
     (case e of Request m url b \<Rightarrow> prefix (API_BASE cfg @ ''/tags'') url | _ \<Rightarrow> True)"

definition body_keys :: "event \<Rightarrow> string list" where
  "body_keys e = (case e of Request m url (Some body) \<Rightarrow> map fst body | _ \<Rightarrow> [])"


text \<open>A post whose markdown file exists and is read; the tag names of an entry
  (\<^verbatim>\<open>tags || []\<close>); the two warnings of \<^verbatim>\<open>publishPost\<close>.\<close>

definition readable :: "'s host \<Rightarrow> postMeta \<Rightarrow> bool" where
  "readable h p =
     (existsSync h (mdPath (slug p))
      \<and> (case readFileSync h (mdPath (slug p)) of Inr markdown \<Rightarrow> True | Inl m \<Rightarrow> False))"

definition tag_names :: "postMeta \<Rightarrow> string list" where
  "tag_names p = (case tags p of None \<Rightarrow> [] | Some ts \<Rightarrow> ts)"

definition skip_line :: "postMeta \<Rightarrow> string" where
  "skip_line p = ''  Skipping '' @ quote @ slug p @ quote @ '' - markdown file not found''"

definition fail_line :: "postMeta \<Rightarrow> error \<Rightarrow> string" where
  "fail_line p e = ''  Failed: '' @ quote @ title p @ quote @ '' - '' @ message e"

definition tag_warning :: "string \<Rightarrow> error \<Rightarrow> string" where
  "tag_warning t e =
     ''  Warning: Could not create tag '' @ quote @ t @ quote @ '': '' @ message e"

text \<open>What the calls of \<^verbatim>\<open>publishPost\<close> in the loop of \<^verbatim>\<open>main\<close> return, in the
  order of the index: the loop of lines 206 to 215 without its counters. A post was
  published, updated or skipped when its call returned, and failed when it threw.\<close>

fun run_results :: "'s host \<Rightarrow> config \<Rightarrow> postMeta list \<Rightarrow> 's world \<Rightarrow> (error + unit) list" where
  "run_results h cfg [] w = []"
| "run_results h cfg (post # rest) w =
     (case publishPost h cfg post w of
        (Inr u, w1) \<Rightarrow> Inr u # run_results h cfg rest (delay 500 w1)
      | (Inl e, w1) \<Rightarrow> Inl e # run_results h cfg rest (console err (fail_line post e) w1))"

text \<open>The world in which the loop of \<^verbatim>\<open>main\<close> starts, from the world the connectivity
  check left.\<close>

definition loop_start :: "postMeta list \<Rightarrow> 's world \<Rightarrow> 's world" where
  "loop_start posts w1 =
     console log (''Found '' @ show_nat (length posts) @ '' posts in blogs.json'' @ nl)
       (console log (''API connection OK'' @ nl) w1)"

text \<open>The world in which the connectivity check is made.\<close>

definition probe_start :: "config \<Rightarrow> 's world \<Rightarrow> 's world" where
  "probe_start cfg w =
     console log ''Testing API connectivity...''
       (console log (nl @ ''Publishing to: '' @ WP_URL cfg) w)"

section \<open>A scripted remote for concrete runs\<close>

text \<open>The remote answers from a list prepared in advance, one answer for each request in
  turn; a request that finds the list empty, or an answer of another kind, gets no
  response.\<close>

datatype answer =
    Listing "resource list http_result"
  | Single "resource http_result"
  | Picture download

definition scripted_get :: "string \<Rightarrow> answer list \<Rightarrow> resource list http_result \<times> answer list" where
  "scripted_get url s =
     (case s of
        [] \<Rightarrow> (NoResponse, [])
      | Listing r # rest \<Rightarrow> (r, rest)
      | _ # rest \<Rightarrow> (NoResponse, rest))"

definition scripted_send ::
  "http_method \<Rightarrow> string \<Rightarrow> obj \<Rightarrow> answer list \<Rightarrow> resource http_result \<times> answer list" where
  "scripted_send m url body s =
     (case s of
        [] \<Rightarrow> (NoResponse, [])
      | Single r # rest \<Rightarrow> (r, rest)
      | _ # rest \<Rightarrow> (NoResponse, rest))"

definition scripted_image :: "bool \<Rightarrow> string \<Rightarrow> answer list \<Rightarrow> download \<times> answer list" where
  "scripted_image secure url s =
     (case s of
        [] \<Rightarrow> (Broken ''ECONNRESET'', [])
      | Picture d # rest \<Rightarrow> (d, rest)
      | _ # rest \<Rightarrow> (Broken ''ECONNRESET'', rest))"

definition scripted_upload ::
  "string \<Rightarrow> string \<Rightarrow> string \<Rightarrow> string \<Rightarrow> answer list \<Rightarrow> resource http_result \<times> answer list" where
  "scripted_upload url contentType filename bytes s =
     (case s of
        [] \<Rightarrow> (NoResponse, [])
      | Single r # rest \<Rightarrow> (r, rest)
      | _ # rest \<Rightarrow> (NoResponse, rest))"

text \<open>Entries of the index. The files of \<open>a\<close> and \<open>b\<close> exist, that of \<open>c\<close> does
  not.\<close>

definition post_a :: postMeta where
  "post_a = \<lparr>slug = ''a'', title = ''A'', excerpt = ''first'', date = ''2025-03-01'',
              tags = None, featuredImage = None\<rparr>"

definition post_b :: postMeta where
  "post_b = \<lparr>slug = ''b'', title = ''B'', excerpt = ''second'', date = ''2025-03-01'',
              tags = None, featuredImage = None\<rparr>"

definition post_c :: postMeta where
  "post_c = \<lparr>slug = ''c'', title = ''C'', excerpt = ''third'', date = ''2025-03-01'',
              tags = None, featuredImage = None\<rparr>"

definition post_bad_date :: postMeta where
  "post_bad_date = \<lparr>slug = ''a'', title = ''A'', excerpt = ''first'', date = ''soon'',
                     tags = None, featuredImage = None\<rparr>"

definition post_bad_date_no_file :: postMeta where
  "post_bad_date_no_file =
     \<lparr>slug = ''c'', title = ''C'', excerpt = ''third'', date = ''soon'',
      tags = None, featuredImage = None\<rparr>"

definition post_tags :: postMeta where
  "post_tags = \<lparr>slug = ''a'', title = ''A'', excerpt = ''first'', date = ''2025-03-01'',
                 tags = Some [''Valid'', ''Invalid''], featuredImage = None\<rparr>"

definition post_image :: postMeta where
  "post_image = \<lparr>slug = ''a'', title = ''A'', excerpt = ''first'', date = ''2025-03-01'',
                  tags = None, featuredImage = Some ''https://img.example/a.jpg''\<rparr>"

definition post_missing_image :: postMeta where
  "post_missing_image =
     \<lparr>slug = ''a'', title = ''A'', excerpt = ''first'', date = ''2025-03-01'',
      tags = None, featuredImage = Some ''https://example.com/missing.jpg''\<rparr>"

definition test_host :: "answer list host" where
  "test_host =
     \<lparr>existsSync = (\<lambda>path. path = ''../posts/a.md'' \<or> path = ''../posts/b.md''),
      readFileSync = (\<lambda>path. if path = ''../posts/a.md'' then Inr ''# A''
                             else if path = ''../posts/b.md'' then Inr ''# B''
                             else Inl ''ENOENT''),
      blogs_json = Inr [post_a, post_b],
      marked_parse = (\<lambda>markdown. ''<h1>'' @ drop 2 markdown @ ''</h1>''),
      toISOString = (\<lambda>d. if d = ''2025-03-01'' then Some ''2025-03-01T00:00:00.000Z'' else None),
      encodeURIComponent = Some,
      toLowerCase = map (\<lambda>c. if c = CHR ''B'' then CHR ''b'' else c),
      trim = (\<lambda>s. rev (dropWhile (\<lambda>c. c = CHR '' '') (rev (dropWhile (\<lambda>c. c = CHR '' '') s)))),
      URL_valid = prefix ''https://'',
      https_get = scripted_get,
      https_send = scripted_send,
      image_get = scripted_image,
      media_post = scripted_upload\<rparr>"

definition test_cfg :: config where
  "test_cfg = \<lparr>WP_URL = ''https://blog.example'', WP_USERNAME = ''editor'',
                WP_APP_PASSWORD = ''secret''\<rparr>"

definition blog_cat :: resource where
  "blog_cat = Resource 3 ''Blog'' ''blog''"

definition world0 :: "answer list \<Rightarrow> answer list world" where
  "world0 s = \<lparr>remote = s, trace = []\<rparr>"

definition env_no_password :: "string \<Rightarrow> string option" where
  "env_no_password =
     [''WP_URL'' \<mapsto> ''https://blog.example/'', ''WP_USERNAME'' \<mapsto> ''editor'']"

definition env_no_scheme :: "string \<Rightarrow> string option" where
  "env_no_scheme =
     [''WP_URL'' \<mapsto> ''blog.example/'', ''WP_USERNAME'' \<mapsto> ''editor'',
      ''WP_APP_PASSWORD'' \<mapsto> ''secret'']"

definition env_http_name :: "string \<Rightarrow> string option" where
  "env_http_name =
     [''WP_URL'' \<mapsto> ''httpbin.org/'', ''WP_USERNAME'' \<mapsto> ''editor'',
      ''WP_APP_PASSWORD'' \<mapsto> ''secret'']"

text \<open>Prepared answers, in the order the script asks.\<close>

definition run_update :: "answer list" where
  "run_update =
     [Listing (Response 200 [] [blog_cat]),
      Listing (Response 200 [] [Resource 41 [] ''a'']),
      Single (Response 200 [] (Resource 41 [] ''a''))]"

definition run_create :: "answer list" where
  "run_create =
     [Listing (Response 200 [] [blog_cat]),
      Listing (Response 200 [] []),
      Single (Response 201 [] (Resource 41 [] ''a''))]"

definition run_first_fails :: "answer list" where
  "run_first_fails =
     [Listing (Response 200 [] []),
      Listing (Response 200 [] [blog_cat]),
      Listing (Response 200 [] []),
      Single (Response 500 ''Internal Server Error'' (Resource 0 [] [])),
      Listing (Response 200 [] [blog_cat]),
      Listing (Response 200 [] []),
      Single (Response 201 [] (Resource 42 [] ''b''))]"

definition run_bad_tag :: "answer list" where
  "run_bad_tag =
     [Listing (Response 200 [] [Resource 5 ''Valid'' ''valid'']),
      Listing (Response 200 [] []),
      Single (Response 400 ''invalid term'' (Resource 0 [] [])),
      Listing (Response 200 [] [blog_cat]),
      Listing (Response 200 [] []),
      Single (Response 201 [] (Resource 43 [] ''a''))]"



definition run_three :: "answer list" where
  "run_three =
     [Listing (Response 200 [] []),
      Listing (Response 200 [] [blog_cat]),
      Listing (Response 200 [] []),
      Single (Response 201 [] (Resource 41 [] ''a'')),
      Listing (Response 200 [] [blog_cat]),
      Listing (Response 200 [] [Resource 42 [] ''b'']),
      Single (Response 200 [] (Resource 42 [] ''b''))]"

definition run_relative_redirect :: "answer list" where
  "run_relative_redirect =
     [Listing (Response 200 [] [blog_cat]),
      Listing (Response 200 [] []),
      Picture (Received 302 (Some ''/missing.jpg'') None []),
      Picture (Thrown ''Invalid URL'')]"

section \<open>Lemmas\<close>

subsection \<open>Unfolding\<close>

lemmas test_defs =
  test_host_def test_cfg_def post_a_def post_b_def blog_cat_def world0_def scripted_get_def
  scripted_send_def scripted_image_def scripted_upload_def API_BASE_def mdPath_def

lemmas script_defs =
  publishPost_def upsert_def getExistingPost_def resolveCategory_def getOrCreateCategory_def
  getOrCreateTag_def wpRequest_def wpRequest_body_def settle_def await_def emit_def
  console_def delay_def postData_def quote_def nl_def Let_def

lemmas img_defs =
  publishPost_img_def upsert_img_def getExistingPost_img_def resolveCategory_img_def
  getOrCreateCategory_img_def getOrCreateTag_img_def wpRequest_img_def wpRequest_body_img_def
  settle_img_def resolveImage_def setFeaturedImage_def fetchAndUpload_def downloadImage_def
  uploadMedia_def postData_img_def of_io_def falsy_def await_def emit_def console_def delay_def
  quote_def nl_def Let_def

subsection \<open>Traces and stages\<close>

lemma emits_refl: "emits P w w"
  by (simp add: emits_def)

lemma emits_trans: "emits P w w1 \<Longrightarrow> emits P w1 w2 \<Longrightarrow> emits P w w2"
  by (fastforce simp: emits_def)

lemma emits_mono: "emits P w w' \<Longrightarrow> (\<And>e. P e \<Longrightarrow> Q e) \<Longrightarrow> emits Q w w'"
  by (fastforce simp: emits_def)

lemma emits_emit: "P e \<Longrightarrow> emits P w (emit e w)"
  by (simp add: emits_def emit_def)

lemma emits_console: "(\<And>l s. P (Console l s)) \<Longrightarrow> emits P w (console l s w)"
  by (simp add: console_def emits_emit)

lemma emits_delay: "(\<And>n. P (Delay n)) \<Longrightarrow> emits P w (delay n w)"
  by (simp add: delay_def emits_emit)

lemma getOrCreateTag_emits: "emits (tag_event cfg) w (snd (getOrCreateTag h cfg t w))"
  by (auto simp: getOrCreateTag_def await_def wpRequest_def wpRequest_body_def Let_def
        emits_def emit_def delay_def tag_event_def
      split: option.splits prod.splits sum.splits)

lemma resolveTags_emits: "emits (tag_event cfg) w (snd (resolveTags h cfg ts acc w))"
proof (induction ts arbitrary: acc w)
  case Nil
  show ?case by (simp add: emits_refl)
next
  case (Cons t ts)
  obtain r w1 where g: "getOrCreateTag h cfg t w = (r, w1)"
    by (cases "getOrCreateTag h cfg t w")
  have a: "emits (tag_event cfg) w w1"
    using getOrCreateTag_emits [of cfg w h t] g by simp
  show ?case
  proof (cases r)
    case (Inl e)
    let ?w2 = "console warn (''  Warning: Could not create tag '' @ quote @ t @ quote
                           @ '': '' @ message e) w1"
    have step: "resolveTags h cfg (t # ts) acc w = resolveTags h cfg ts acc ?w2"
      using g Inl by simp
    have b: "emits (tag_event cfg) w1 ?w2"
      by (rule emits_console) (simp add: tag_event_def)
    show ?thesis
      unfolding step by (rule emits_trans [OF a emits_trans [OF b Cons.IH]])
  next
    case (Inr i)
    have step: "resolveTags h cfg (t # ts) acc w = resolveTags h cfg ts (acc @ [i]) (delay 200 w1)"
      using g Inr by simp
    have b: "emits (tag_event cfg) w1 (delay 200 w1)"
      by (rule emits_delay) (simp add: tag_event_def)
    show ?thesis
      unfolding step by (rule emits_trans [OF a emits_trans [OF b Cons.IH]])
  qed
qed

lemma emits_issued_trans:
  assumes "emits P w w1" and "emits Q w1 w2"
  shows "issued w w2 = issued w w1 @ issued w1 w2"
  using assms by (auto simp: emits_def issued_def)

lemma issued_filter_none:
  "emits Q w w' \<Longrightarrow> (\<And>e. Q e \<Longrightarrow> \<not> P e) \<Longrightarrow> filter P (issued w w') = []"
  by (auto simp: emits_def issued_def)

lemma tag_event_not_posts: "tag_event cfg e \<Longrightarrow> \<not> posts_request cfg e"
  by (auto simp: tag_event_def posts_request_def split: event.splits dest: prefix_same_cases)

lemma resolveCategory_emits:
  "emits (\<lambda>e. \<not> posts_request cfg e) w (snd (resolveCategory h cfg w))"
  by (auto simp: resolveCategory_def getOrCreateCategory_def await_def wpRequest_def
        wpRequest_body_def Let_def emits_def emit_def delay_def console_def posts_request_def
      split: option.splits prod.splits sum.splits)

lemma publishAll_counts:
  "fst (publishAll h cfg posts (s, f) w) = (s', f') \<Longrightarrow> s' + f' = s + f + length posts"
proof (induction posts arbitrary: s f w)
  case Nil
  then show ?case by simp
next
  case (Cons p ps)
  obtain r w1 where r: "publishPost h cfg p w = (r, w1)"
    by (cases "publishPost h cfg p w")
  show ?case
  proof (cases r)
    case (Inl e)
    then show ?thesis
      using Cons.prems r Cons.IH [of s "f + 1"] by simp
  next
    case (Inr u)
    then show ?thesis
      using Cons.prems r Cons.IH [of "s + 1" f] by simp
  qed
qed

lemma show_nat_1: "show_nat (Suc 0) = ''1''"
  by (simp add: show_nat.simps)

lemma before_upsert_emits:
  "emits (\<lambda>e. \<not> posts_request cfg e) w
     (snd (resolveCategory h cfg (snd (resolveTags h cfg ts [] w))))"
  by (rule emits_trans [OF emits_mono [OF resolveTags_emits tag_event_not_posts]
        resolveCategory_emits])

lemma publishPost_bad_date:
  assumes "existsSync h (mdPath (slug p))"
      and "readFileSync h (mdPath (slug p)) = Inr markdown"
      and "toISOString h (date p) = None"
  shows "publishPost h cfg p w =
           (Inl (RangeError ''Invalid time value''),
            snd (resolveCategory h cfg (snd (resolveTags h cfg (tag_names p) [] w))))"
  using assms by (simp add: publishPost_def tag_names_def case_prod_beta)

lemma publishPost_upsert:
  assumes "existsSync h (mdPath (slug p))"
      and "readFileSync h (mdPath (slug p)) = Inr markdown"
      and "toISOString h (date p) = Some isoDate"
  shows "publishPost h cfg p w =
           upsert h cfg p
             (postData p (marked_parse h markdown) isoDate
                (fst (resolveTags h cfg (tag_names p) [] w))
                (fst (resolveCategory h cfg (snd (resolveTags h cfg (tag_names p) [] w)))))
             (snd (resolveCategory h cfg (snd (resolveTags h cfg (tag_names p) [] w))))"
  using assms by (simp add: publishPost_def tag_names_def case_prod_beta)

lemma upsert_emits:
  "emits (\<lambda>e. (\<forall>m url b. e = Request m url (Some b) \<longrightarrow> b = body)
              \<and> (is_request e \<longrightarrow> posts_request cfg e))
     w (snd (upsert h cfg p body w))"
  by (auto simp: upsert_def getExistingPost_def await_def wpRequest_def wpRequest_body_def
        Let_def emits_def emit_def console_def posts_request_def is_request_def
      split: prod.splits sum.splits list.splits option.splits)

lemma emits_issued_mem:
  assumes "emits P w w1" and "emits Q w1 w2" and "e \<in> set (issued w w2)"
  shows "P e \<or> Q e"
  using assms by (auto simp: emits_def issued_def)

lemma tag_event_not_category: "tag_event cfg e \<Longrightarrow> \<not> category_search cfg e"
  by (auto simp: tag_event_def category_search_def split: event.splits dest: prefix_same_cases)

lemma upsert_event_not_category:
  "is_request e \<longrightarrow> posts_request cfg e \<Longrightarrow> \<not> category_search cfg e"
  by (auto simp: is_request_def posts_request_def category_search_def split: event.splits
      dest: prefix_same_cases)

lemma resolveCategory_grows: "emits (\<lambda>e. True) w (snd (resolveCategory h cfg w))"
  by (rule emits_mono [OF resolveCategory_emits]) simp

lemma resolveCategory_search:
  assumes "URL_valid h (API_BASE cfg @ ''/categories?search='' @ q)"
      and "encodeURIComponent h ''Blog'' = Some q"
  shows "filter (category_search cfg) (issued w (snd (resolveCategory h cfg w))) =
           [Request GET (API_BASE cfg @ ''/categories?search='' @ q) None]"
  using assms
  by (auto simp: resolveCategory_def getOrCreateCategory_def await_def wpRequest_def
        wpRequest_body_def Let_def issued_def emit_def delay_def console_def category_search_def
      split: option.splits prod.splits sum.splits)

lemma publishPost_grows: "emits (\<lambda>e. True) w (snd (publishPost h cfg p w))"
proof (cases "existsSync h (mdPath (slug p))")
  case False
  then show ?thesis
    by (simp add: publishPost_def emits_console)
next
  case True
  show ?thesis
  proof (cases "readFileSync h (mdPath (slug p))")
    case (Inl msg)
    then show ?thesis
      using True by (simp add: publishPost_def emits_refl)
  next
    case (Inr markdown)
    have a: "emits (\<lambda>e. True) w
               (snd (resolveCategory h cfg (snd (resolveTags h cfg (tag_names p) [] w))))"
      by (rule emits_mono [OF before_upsert_emits]) simp
    show ?thesis
    proof (cases "toISOString h (date p)")
      case None
      show ?thesis
        unfolding publishPost_bad_date [OF True Inr None] snd_conv by (rule a)
    next
      case (Some isoDate)
      show ?thesis
        unfolding publishPost_upsert [OF True Inr Some]
        by (rule emits_trans [OF a emits_mono [OF upsert_emits]]) simp
    qed
  qed
qed

lemma publishPost_category_search:
  assumes url: "URL_valid h (API_BASE cfg @ ''/categories?search='' @ q)"
      and enc: "encodeURIComponent h ''Blog'' = Some q"
  shows "filter (category_search cfg) (issued w (snd (publishPost h cfg p w))) =
           (if readable h p then [Request GET (API_BASE cfg @ ''/categories?search='' @ q) None]
            else [])"
proof (cases "existsSync h (mdPath (slug p))")
  case False
  then show ?thesis
    by (simp add: publishPost_def issued_def console_def emit_def readable_def
          category_search_def)
next
  case True
  show ?thesis
  proof (cases "readFileSync h (mdPath (slug p))")
    case (Inl msg)
    then show ?thesis
      using True by (simp add: publishPost_def issued_def readable_def)
  next
    case (Inr markdown)
    let ?w1 = "snd (resolveTags h cfg (tag_names p) [] w)"
    let ?w2 = "snd (resolveCategory h cfg ?w1)"
    have r: "readable h p"
      using True Inr by (simp add: readable_def)
    have t: "emits (tag_event cfg) w ?w1"
      by (rule resolveTags_emits)
    have a: "filter (category_search cfg) (issued w ?w2) =
               [Request GET (API_BASE cfg @ ''/categories?search='' @ q) None]"
      using emits_issued_trans [OF t resolveCategory_grows, of h cfg]
        issued_filter_none [OF t tag_event_not_category]
        resolveCategory_search [OF url enc, of ?w1]
      by simp
    show ?thesis
    proof (cases "toISOString h (date p)")
      case None
      show ?thesis
        unfolding publishPost_bad_date [OF True Inr None] snd_conv using a r by simp
    next
      case (Some isoDate)
      note pp = publishPost_upsert [OF True Inr Some, of cfg w]
      have g: "emits (\<lambda>e. True) w ?w2"
        by (rule emits_mono [OF before_upsert_emits]) simp
      let ?body = "postData p (marked_parse h markdown) isoDate
                (fst (resolveTags h cfg (tag_names p) [] w))
                (fst (resolveCategory h cfg (snd (resolveTags h cfg (tag_names p) [] w))))"
      have u: "filter (category_search cfg) (issued ?w2 (snd (upsert h cfg p ?body ?w2))) = []"
        by (rule issued_filter_none [OF upsert_emits]) (use upsert_event_not_category in blast)
      have "issued w (snd (upsert h cfg p ?body ?w2)) =
            issued w ?w2 @ issued ?w2 (snd (upsert h cfg p ?body ?w2))"
        by (rule emits_issued_trans [OF g upsert_emits])
      then show ?thesis
        unfolding pp using u a r by simp
    qed
  qed
qed

lemma publishAll_grows: "emits (\<lambda>e. True) w (snd (publishAll h cfg posts (s, f) w))"
proof (induction posts arbitrary: s f w)
  case Nil
  show ?case by (simp add: emits_refl)
next
  case (Cons p ps)
  obtain r w1 where r: "publishPost h cfg p w = (r, w1)"
    by (cases "publishPost h cfg p w")
  have a: "emits (\<lambda>e. True) w w1"
    using publishPost_grows [of w h cfg p] r by simp
  show ?case
  proof (cases r)
    case (Inl e)
    show ?thesis
      using r Inl
      by (simp add: emits_trans [OF a emits_trans [OF emits_console Cons.IH]])
  next
    case (Inr u)
    show ?thesis
      using r Inr
      by (simp add: emits_trans [OF a emits_trans [OF emits_delay Cons.IH]])
  qed
qed

lemma resolveTags_append:
  "resolveTags h cfg (xs @ ys) acc w =
     (case resolveTags h cfg xs acc w of (ids, w1) \<Rightarrow> resolveTags h cfg ys ids w1)"
  by (induction xs arbitrary: acc w) (auto split: prod.splits sum.splits)

lemma resolveTags_acc:
  "resolveTags h cfg ts acc w =
     (acc @ fst (resolveTags h cfg ts [] w), snd (resolveTags h cfg ts [] w))"
proof (induction ts arbitrary: acc w)
  case Nil
  show ?case by simp
next
  case (Cons t ts)
  obtain r w1 where r: "getOrCreateTag h cfg t w = (r, w1)"
    by (cases "getOrCreateTag h cfg t w")
  show ?case
  proof (cases r)
    case (Inl e)
    then show ?thesis
      using r Cons.IH [of acc] by simp
  next
    case (Inr i)
    then show ?thesis
      using r Cons.IH [of "acc @ [i]"] Cons.IH [of "[i]"] by simp
  qed
qed

lemma run_results_counts:
  "fst (publishAll h cfg posts (s, f) w) =
     (s + length (filter (\<lambda>x. \<not> isl x) (run_results h cfg posts w)),
      f + length (filter isl (run_results h cfg posts w)))"
proof (induction posts arbitrary: s f w)
  case Nil
  show ?case by simp
next
  case (Cons p ps)
  obtain r w1 where r: "publishPost h cfg p w = (r, w1)"
    by (cases "publishPost h cfg p w")
  show ?case
  proof (cases r)
    case (Inl e)
    then show ?thesis
      using r Cons.IH [of s "f + 1"] by (simp add: fail_line_def)
  next
    case (Inr u)
    then show ?thesis
      using r Cons.IH [of "s + 1" f] by simp
  qed
qed

lemma main_exit_code:
  assumes "wpRequest h cfg ''/posts?per_page=1'' (probe_start cfg w) = (Inr r, w1)"
      and "blogs_json h = Inr posts"
  shows "fst (main h cfg w) =
           (if snd (fst (publishAll h cfg posts (0, 0) (loop_start posts w1))) > 0 then 1 else 0)"
  using assms by (simp add: main_def Let_def probe_start_def loop_start_def case_prod_beta)



lemma load_config_strip:
  assumes "load_config env = Some cfg"
  shows "env ''WP_URL'' = Some (WP_URL cfg @ ''/'')
         \<or> (env ''WP_URL'' = Some (WP_URL cfg) \<and> last (WP_URL cfg) \<noteq> CHR ''/'')"
proof -
  obtain u where u: "env ''WP_URL'' = Some u" and c: "WP_URL cfg = strip_slash u"
    using assms
    by (auto simp: load_config_def falsy_def Let_def split: if_splits option.splits)
  show ?thesis
  proof (cases "u \<noteq> [] \<and> last u = CHR ''/''")
    case True
    then have "u = butlast u @ ''/''"
      by (metis append_butlast_last_id)
    then show ?thesis
      using u c True by (simp add: strip_slash_def)
  next
    case False
    have "strip_slash u \<noteq> []"
      using assms u
      by (auto simp: load_config_def falsy_def Let_def split: if_splits option.splits)
    then show ?thesis
      using u c False by (auto simp: strip_slash_def)
  qed
qed

subsection \<open>The revision with featured images\<close>

text \<open>Its base URL gets \<^verbatim>\<open>https://\<close> in front when it does not start with
  \<^verbatim>\<open>http\<close>; its payload has the six fixed keys, and each of \<^verbatim>\<open>tags\<close>,
  \<^verbatim>\<open>categories\<close> and \<^verbatim>\<open>featured_media\<close> only when there is something to
  send.\<close>

lemma load_config_img_scheme:
  "map_option WP_URL (load_config_img test_host env_no_scheme) = Some ''https://blog.example''"
  "map_option WP_URL (load_config_img test_host env_http_name) = Some ''httpbin.org''"
  by (simp_all add: load_config_img_def env_no_scheme_def env_http_name_def test_host_def
        falsy_def strip_slash_def)

text \<open>A redirect to an address for which \<^verbatim>\<open>get\<close> throws: the exception is thrown in
  the response callback, outside the promise of \<^verbatim>\<open>downloadImage\<close>, and the run of
  the post ends there, before any request on the posts resource.\<close>

lemma relative_redirect_is_uncaught:
  "publishPost_img test_host test_cfg post_missing_image (world0 run_relative_redirect) =
     (Uncaught ''Invalid URL'',
      \<lparr>remote = [Picture (Thrown ''Invalid URL'')],
       trace =
         [Request GET ''https://blog.example/wp-json/wp/v2/categories?search=Blog'' None,
          Request GET ''https://blog.example/wp-json/wp/v2/media?search=a&per_page=5'' None,
          Console log ''    Downloading image for a...'',
          Fetch ''https://example.com/missing.jpg'']\<rparr>)"
  by (simp add: test_defs img_defs run_relative_redirect_def post_missing_image_def
        doRequest.simps)

lemma postData_img_keys:
  "map fst (postData_img p html isoDate [] [] None) =
     [''title'', ''slug'', ''content'', ''excerpt'', ''status'', ''date'']"
  "map fst (postData_img p html isoDate [5] [3] (Some 77)) =
     [''title'', ''slug'', ''content'', ''excerpt'', ''status'', ''date'', ''tags'',
      ''categories'', ''featured_media'']"
  by (simp_all add: postData_img_def)

section \<open>The claims\<close>

subsection \<open>Create or update\<close>



subsection \<open>The payload\<close>

text \<open>
  C2. The body of the create request has the eight keys of the object literal of lines 160
  to 169; \<^verbatim>\<open>featured_media\<close> is not one of them, also for an entry that names a
  featured image.
\<close>

theorem payload_without_featured_media_counterexample:
  "map body_keys
     (filter (posts_request test_cfg)
        (trace (snd (publishPost test_host test_cfg post_image (world0 run_create))))) =
   [[], [''title'', ''slug'', ''content'', ''excerpt'', ''status'', ''date'', ''tags'',
         ''categories'']]"
  by (simp add: test_defs script_defs post_image_def run_create_def posts_request_def
        body_keys_def show_nat.simps)

text \<open>
  C2, as the script has it. Every request with a body that a post makes on the posts
  resource, the update and the create alike, carries the same object: title, slug,
  content (the rendered markdown), excerpt, status \<^verbatim>\<open>publish\<close>, date (the ISO
  conversion of the entry's date), tags (the ids the tag loop resolved) and categories
  (the ids the category step resolved), and no other key.
\<close>

theorem upsert_payload:
  assumes "Request m url (Some body) \<in> set (issued w (snd (publishPost h cfg p w)))"
      and "posts_request cfg (Request m url (Some body))"
  shows "\<exists>markdown isoDate.
           readFileSync h (mdPath (slug p)) = Inr markdown
           \<and> toISOString h (date p) = Some isoDate
           \<and> body =
               [(''title'', JStr (title p)),
                (''slug'', JStr (slug p)),
                (''content'', JStr (marked_parse h markdown)),
                (''excerpt'', JStr (excerpt p)),
                (''status'', JStr ''publish''),
                (''date'', JStr isoDate),
                (''tags'', JIds (fst (resolveTags h cfg (tag_names p) [] w))),
                (''categories'',
                 JIds (fst (resolveCategory h cfg (snd (resolveTags h cfg (tag_names p) [] w)))))]"
proof (cases "existsSync h (mdPath (slug p))")
  case False
  then have "issued w (snd (publishPost h cfg p w)) = [Console warn (skip_line p)]"
    by (simp add: publishPost_def issued_def console_def emit_def skip_line_def)
  then show ?thesis
    using assms by simp
next
  case True
  show ?thesis
  proof (cases "readFileSync h (mdPath (slug p))")
    case (Inl msg)
    then have "issued w (snd (publishPost h cfg p w)) = []"
      using True by (simp add: publishPost_def issued_def)
    then show ?thesis
      using assms by simp
  next
    case (Inr markdown)
    show ?thesis
    proof (cases "toISOString h (date p)")
      case None
      have "filter (posts_request cfg) (issued w (snd (publishPost h cfg p w))) = []"
        unfolding publishPost_bad_date [OF True Inr None] snd_conv
        by (rule issued_filter_none [OF before_upsert_emits]) simp
      then show ?thesis
        using assms by (auto simp: filter_empty_conv)
    next
      case (Some isoDate)
      note pp = publishPost_upsert [OF True Inr Some, of cfg w]
      let ?body = "postData p (marked_parse h markdown) isoDate
                (fst (resolveTags h cfg (tag_names p) [] w))
                (fst (resolveCategory h cfg (snd (resolveTags h cfg (tag_names p) [] w))))"
      have "\<not> posts_request cfg (Request m url (Some body))
            \<or> ((\<forall>m' url' b. Request m url (Some body) = Request m' url' (Some b) \<longrightarrow> b = ?body)
               \<and> (is_request (Request m url (Some body))
                    \<longrightarrow> posts_request cfg (Request m url (Some body))))"
        using emits_issued_mem [OF before_upsert_emits upsert_emits] assms(1)
        unfolding pp by blast
      then have "body = ?body"
        using assms(2) by blast
      then show ?thesis
        using Inr Some by (simp add: postData_def)
    qed
  qed
qed

theorem upsert_payload_witness:
  "\<exists>markdown isoDate.
     readFileSync test_host (mdPath (slug post_image)) = Inr markdown
     \<and> toISOString test_host (date post_image) = Some isoDate
     \<and> [(''title'', JStr ''A''), (''slug'', JStr ''a''), (''content'', JStr ''<h1>A</h1>''),
        (''excerpt'', JStr ''first''), (''status'', JStr ''publish''),
        (''date'', JStr ''2025-03-01T00:00:00.000Z''), (''tags'', JIds []),
        (''categories'', JIds [3])] =
       [(''title'', JStr (title post_image)),
        (''slug'', JStr (slug post_image)),
        (''content'', JStr (marked_parse test_host markdown)),
        (''excerpt'', JStr (excerpt post_image)),
        (''status'', JStr ''publish''),
        (''date'', JStr isoDate),
        (''tags'', JIds (fst (resolveTags test_host test_cfg (tag_names post_image) []
                               (world0 run_create)))),
        (''categories'',
         JIds (fst (resolveCategory test_host test_cfg
                      (snd (resolveTags test_host test_cfg (tag_names post_image) []
                              (world0 run_create))))))]"
proof -
  let ?r = "Request POST ''https://blog.example/wp-json/wp/v2/posts''
       (Some [(''title'', JStr ''A''), (''slug'', JStr ''a''), (''content'', JStr ''<h1>A</h1>''),
              (''excerpt'', JStr ''first''), (''status'', JStr ''publish''),
              (''date'', JStr ''2025-03-01T00:00:00.000Z''), (''tags'', JIds []),
              (''categories'', JIds [3])])"
  have a: "?r \<in> set (issued (world0 run_create)
                   (snd (publishPost test_host test_cfg post_image (world0 run_create))))"
    by (simp add: test_defs script_defs post_image_def run_create_def issued_def show_nat.simps)
  have b: "posts_request test_cfg ?r"
    by (simp add: posts_request_def test_defs)
  show ?thesis
    by (rule upsert_payload [OF a b])
qed

subsection \<open>A failed post\<close>

text \<open>
  C3. Whatever makes \<^verbatim>\<open>publishPost\<close> throw for a post, at any place of the index and
  with any counters, the loop prints the failure, adds one to the failed counter and goes
  on with the rest of the index from the world the failure left; a post that returns adds
  one to the other counter; so the two counters grow by the number of posts. Once the
  connectivity check is answered and the index is read, \<^verbatim>\<open>main\<close> runs the loop over
  the whole index, prints the two counters and exits with code 1 when the failed counter
  is not 0, and with code 0 otherwise. With an index of two posts of which the first fails
  and the second succeeds, the run reports 1 published and 1 failed and exits with code 1.
\<close>

theorem failed_post_does_not_abort:
  "(\<forall>p rest s f w' e' w1'.
      publishPost h cfg p w' = (Inl e', w1')
      \<longrightarrow> publishAll h cfg (p # rest) (s, f) w' =
            publishAll h cfg rest (s, f + 1)
              (console err (''  Failed: '' @ quote @ title p @ quote @ '' - '' @ message e') w1'))
   \<and> (\<forall>p rest s f w' w1'.
         publishPost h cfg p w' = (Inr (), w1')
         \<longrightarrow> publishAll h cfg (p # rest) (s, f) w' =
               publishAll h cfg rest (s + 1, f) (delay 500 w1'))
   \<and> (\<forall>s f w'. publishAll h cfg [] (s, f) w' = ((s, f), w'))
   \<and> (\<forall>posts s f w'. fst (fst (publishAll h cfg posts (s, f) w'))
                         + snd (fst (publishAll h cfg posts (s, f) w'))
                       = s + f + length posts)
   \<and> (\<forall>posts r w1.
         wpRequest h cfg ''/posts?per_page=1'' (probe_start cfg w) = (Inr r, w1)
         \<and> blogs_json h = Inr posts
         \<longrightarrow> main h cfg w =
               (let run = publishAll h cfg posts (0, 0) (loop_start posts w1);
                    success = fst (fst run);
                    failed = snd (fst run)
                in (if failed > 0 then 1 else 0,
                    console log (nl @ ''Done! '' @ show_nat success @ '' published, ''
                                 @ show_nat failed @ '' failed.'' @ nl) (snd run))))
   \<and> (\<forall>a b r w1 e wa wb.
         wpRequest h cfg ''/posts?per_page=1'' (probe_start cfg w) = (Inr r, w1)
         \<and> blogs_json h = Inr [a, b]
         \<and> publishPost h cfg a (loop_start [a, b] w1) = (Inl e, wa)
         \<and> publishPost h cfg b
               (console err (''  Failed: '' @ quote @ title a @ quote @ '' - '' @ message e) wa)
             = (Inr (), wb)
         \<longrightarrow> main h cfg w =
               (1, console log (nl @ ''Done! 1 published, 1 failed.'' @ nl) (delay 500 wb)))"
proof -
  have counters: "fst (fst (publishAll h cfg posts (s, f) w'))
                   + snd (fst (publishAll h cfg posts (s, f) w')) = s + f + length posts"
    for posts s f w'
    using publishAll_counts [of h cfg posts s f w'] by (metis prod.collapse)
  have general: "main h cfg w =
               (let run = publishAll h cfg posts (0, 0) (loop_start posts w1);
                    success = fst (fst run);
                    failed = snd (fst run)
                in (if failed > 0 then 1 else 0,
                    console log (nl @ ''Done! '' @ show_nat success @ '' published, ''
                                 @ show_nat failed @ '' failed.'' @ nl) (snd run)))"
    if "wpRequest h cfg ''/posts?per_page=1'' (probe_start cfg w) = (Inr r, w1)"
      and "blogs_json h = Inr posts"
    for posts r w1
    using that by (simp add: main_def Let_def probe_start_def loop_start_def case_prod_beta)
  have two: "main h cfg w =
               (1, console log (nl @ ''Done! 1 published, 1 failed.'' @ nl) (delay 500 wb))"
    if "wpRequest h cfg ''/posts?per_page=1'' (probe_start cfg w) = (Inr r, w1)"
      and "blogs_json h = Inr [a, b]"
      and "publishPost h cfg a (loop_start [a, b] w1) = (Inl e, wa)"
      and "publishPost h cfg b
               (console err (''  Failed: '' @ quote @ title a @ quote @ '' - '' @ message e) wa)
             = (Inr (), wb)"
    for a b r w1 e wa wb
    using general [OF that(1,2)] that(3,4) by (simp add: Let_def show_nat_1)
  show ?thesis
    using counters general two by simp
qed

theorem failed_post_does_not_abort_witness:
  "fst (main test_host test_cfg (world0 run_first_fails)) = 1
   \<and> last (trace (snd (main test_host test_cfg (world0 run_first_fails))))
       = Console log (nl @ ''Done! 1 published, 1 failed.'' @ nl)"
proof -
  let ?w0 = "probe_start test_cfg (world0 run_first_fails)"
  let ?w1 = "snd (wpRequest test_host test_cfg ''/posts?per_page=1'' ?w0)"
  let ?w2 = "loop_start [post_a, post_b] ?w1"
  let ?e = "Error ''API 500 on POST /posts: Internal Server Error''"
  let ?wa = "snd (publishPost test_host test_cfg post_a ?w2)"
  let ?w3 = "console err (''  Failed: '' @ quote @ title post_a @ quote @ '' - '' @ message ?e) ?wa"
  let ?wb = "snd (publishPost test_host test_cfg post_b ?w3)"
  have probe: "wpRequest test_host test_cfg ''/posts?per_page=1'' ?w0 = (Inr [], ?w1)"
    by (simp add: prod_eq_iff test_defs script_defs run_first_fails_def probe_start_def)
  have index: "blogs_json test_host = Inr [post_a, post_b]"
    by (simp add: test_defs)
  have first: "publishPost test_host test_cfg post_a ?w2 = (Inl ?e, ?wa)"
    by (simp add: prod_eq_iff test_defs script_defs run_first_fails_def show_nat.simps
          probe_start_def loop_start_def)
  have second: "publishPost test_host test_cfg post_b ?w3 = (Inr (), ?wb)"
    by (simp add: prod_eq_iff test_defs script_defs run_first_fails_def show_nat.simps
          probe_start_def loop_start_def)
  have "main test_host test_cfg (world0 run_first_fails) =
          (1, console log (nl @ ''Done! 1 published, 1 failed.'' @ nl) (delay 500 ?wb))"
    using failed_post_does_not_abort [of test_host test_cfg "world0 run_first_fails"]
      probe index first second
    by blast
  then show ?thesis
    by (simp add: console_def emit_def)
qed

subsection \<open>A failed tag\<close>

text \<open>
  C4. When one tag of a post fails to resolve, the loop prints a warning and goes on: the
  ids resolved before it are kept, the tags after it are resolved in order and their ids
  appended, and the failed tag contributes no id. The post then goes to the category step
  and the upsert with these ids; whether it fails is decided by the upsert alone.
\<close>

theorem bad_tag_is_left_out:
  assumes before: "resolveTags h cfg earlier [] w = (ids, w1)"
      and bad: "getOrCreateTag h cfg t w1 = (Inl e, w2)"
      and later: "resolveTags h cfg rest [] (console warn (tag_warning t e) w2) = (others, w3)"
      and cat: "resolveCategory h cfg w3 = (categoryIds, w4)"
  shows "resolveTags h cfg (earlier @ t # rest) [] w = (ids @ others, w3)
         \<and> (existsSync h (mdPath (slug p))
              \<and> readFileSync h (mdPath (slug p)) = Inr markdown
              \<and> toISOString h (date p) = Some isoDate
              \<and> tags p = Some (earlier @ t # rest)
            \<longrightarrow> publishPost h cfg p w =
                  upsert h cfg p
                    (postData p (marked_parse h markdown) isoDate (ids @ others) categoryIds) w4)"
proof -
  have a: "resolveTags h cfg (earlier @ t # rest) [] w = (ids @ others, w3)"
    using before bad later resolveTags_acc [of h cfg rest ids]
    by (simp add: resolveTags_append tag_warning_def)
  have "publishPost h cfg p w =
          upsert h cfg p (postData p (marked_parse h markdown) isoDate (ids @ others) categoryIds) w4"
    if "existsSync h (mdPath (slug p))" "readFileSync h (mdPath (slug p)) = Inr markdown"
      "toISOString h (date p) = Some isoDate" "tags p = Some (earlier @ t # rest)"
    using publishPost_upsert [OF that(1-3), of cfg w] a cat that(4)
    by (simp add: tag_names_def)
  then show ?thesis
    using a by blast
qed

theorem bad_tag_is_left_out_witness:
  "fst (resolveTags test_host test_cfg [''Valid'', ''Invalid''] [] (world0 run_bad_tag)) = [5]
   \<and> fst (publishPost test_host test_cfg post_tags (world0 run_bad_tag)) = Inr ()
   \<and> filter (posts_request test_cfg)
        (trace (snd (publishPost test_host test_cfg post_tags (world0 run_bad_tag)))) =
      [Request GET ''https://blog.example/wp-json/wp/v2/posts?slug=a&status=publish,draft,pending''
         None,
       Request POST ''https://blog.example/wp-json/wp/v2/posts''
         (Some [(''title'', JStr ''A''), (''slug'', JStr ''a''), (''content'', JStr ''<h1>A</h1>''),
                (''excerpt'', JStr ''first''), (''status'', JStr ''publish''),
                (''date'', JStr ''2025-03-01T00:00:00.000Z''), (''tags'', JIds [5]),
                (''categories'', JIds [3])])]"
proof -
  let ?w = "world0 run_bad_tag"
  let ?w1 = "snd (resolveTags test_host test_cfg [''Valid''] [] ?w)"
  let ?e = "Error ''API 400 on POST /tags: invalid term''"
  let ?w2 = "snd (getOrCreateTag test_host test_cfg ''Invalid'' ?w1)"
  let ?w3 = "console warn (tag_warning ''Invalid'' ?e) ?w2"
  let ?w4 = "snd (resolveCategory test_host test_cfg ?w3)"
  have before: "resolveTags test_host test_cfg [''Valid''] [] ?w = ([5], ?w1)"
    by (simp add: prod_eq_iff test_defs script_defs run_bad_tag_def)
  have bad: "getOrCreateTag test_host test_cfg ''Invalid'' ?w1 = (Inl ?e, ?w2)"
    by (simp add: prod_eq_iff test_defs script_defs run_bad_tag_def show_nat.simps)
  have later: "resolveTags test_host test_cfg [] [] ?w3 = ([], ?w3)"
    by simp
  have cat: "resolveCategory test_host test_cfg ?w3 = ([3], ?w4)"
    by (simp add: prod_eq_iff test_defs script_defs run_bad_tag_def tag_warning_def)
  have md: "existsSync test_host (mdPath (slug post_tags))
      \<and> readFileSync test_host (mdPath (slug post_tags)) = Inr ''# A''
      \<and> toISOString test_host (date post_tags) = Some ''2025-03-01T00:00:00.000Z''
      \<and> tags post_tags = Some ([''Valid''] @ ''Invalid'' # [])"
    by (simp add: test_defs post_tags_def)
  have run: "publishPost test_host test_cfg post_tags ?w =
          upsert test_host test_cfg post_tags
            (postData post_tags (marked_parse test_host ''# A'') ''2025-03-01T00:00:00.000Z''
               ([5] @ []) [3]) ?w4"
    and ids: "resolveTags test_host test_cfg ([''Valid''] @ ''Invalid'' # []) [] ?w = ([5] @ [], ?w3)"
    using bad_tag_is_left_out [OF before bad later cat, of post_tags "''# A''"
        "''2025-03-01T00:00:00.000Z''"] md
    by simp_all
  have "fst (resolveTags test_host test_cfg [''Valid'', ''Invalid''] [] ?w) = [5]"
    using ids by simp
  moreover have "fst (publishPost test_host test_cfg post_tags ?w) = Inr ()"
    unfolding run
    by (simp add: test_defs script_defs run_bad_tag_def tag_warning_def post_tags_def
          show_nat.simps)
  moreover have "filter (posts_request test_cfg)
        (trace (snd (publishPost test_host test_cfg post_tags ?w))) =
      [Request GET ''https://blog.example/wp-json/wp/v2/posts?slug=a&status=publish,draft,pending''
         None,
       Request POST ''https://blog.example/wp-json/wp/v2/posts''
         (Some [(''title'', JStr ''A''), (''slug'', JStr ''a''), (''content'', JStr ''<h1>A</h1>''),
                (''excerpt'', JStr ''first''), (''status'', JStr ''publish''),
                (''date'', JStr ''2025-03-01T00:00:00.000Z''), (''tags'', JIds [5]),
                (''categories'', JIds [3])])]"
    unfolding run
    by (simp add: test_defs script_defs run_bad_tag_def tag_warning_def post_tags_def
          posts_request_def show_nat.simps)
  ultimately show ?thesis
    by blast
qed

subsection \<open>A failed image\<close>




subsection \<open>Missing configuration\<close>

text \<open>
  C6. When one of the three environment variables is absent, the script prints one error
  line and exits with code 1; no request has been made and the remote is untouched.
\<close>

theorem missing_env_exits_before_network:
  assumes "env ''WP_URL'' = None \<or> env ''WP_USERNAME'' = None \<or> env ''WP_APP_PASSWORD'' = None"
  shows "script h env w =
           (1, console err ''Missing environment variables: WP_URL, WP_USERNAME, WP_APP_PASSWORD'' w)
         \<and> filter is_request (issued w (snd (script h env w))) = []
         \<and> remote (snd (script h env w)) = remote w"
proof -
  have "load_config env = None"
    using assms by (auto simp: load_config_def falsy_def Let_def)
  then show ?thesis
    by (simp add: script_def console_def emit_def issued_def is_request_def)
qed

theorem missing_env_exits_before_network_witness:
  "fst (script test_host env_no_password (world0 run_update)) = 1
   \<and> filter is_request (trace (snd (script test_host env_no_password (world0 run_update)))) = []
   \<and> remote (snd (script test_host env_no_password (world0 run_update))) = run_update"
proof -
  have "env_no_password ''WP_URL'' = None \<or> env_no_password ''WP_USERNAME'' = None
        \<or> env_no_password ''WP_APP_PASSWORD'' = None"
    by (simp add: env_no_password_def)
  from missing_env_exits_before_network [OF this, of test_host "world0 run_update"]
  show ?thesis
    by (simp add: issued_def world0_def console_def emit_def is_request_def)
qed

subsection \<open>A missing markdown file\<close>

text \<open>
  C7. A post whose markdown file does not exist is skipped: one warning is printed, no
  request is made, and the loop counts it with the published posts, not the failed ones.
  A run whose connectivity check is answered and whose index is read exits with code 0
  exactly when every call of \<^verbatim>\<open>publishPost\<close> that the run makes returns, that is when
  every post is published, updated or skipped.
\<close>

theorem skipped_post_is_not_a_failure:
  "(\<not> existsSync h (mdPath (slug p)) \<longrightarrow>
      publishPost h cfg p w = (Inr (), console warn (skip_line p) w)
      \<and> publishAll h cfg (p # rest) (s, f) w =
          publishAll h cfg rest (s + 1, f) (delay 500 (console warn (skip_line p) w)))
   \<and> (wpRequest h cfg ''/posts?per_page=1'' (probe_start cfg w) = (Inr r, w1)
      \<and> blogs_json h = Inr posts
      \<longrightarrow> (fst (main h cfg w) = 0)
            = (\<forall>x\<in>set (run_results h cfg posts (loop_start posts w1)). x = Inr ())
          \<and> (fst (main h cfg w) = 0 \<or> fst (main h cfg w) = 1))"
proof -
  have a: "publishPost h cfg p w = (Inr (), console warn (skip_line p) w)"
    if "\<not> existsSync h (mdPath (slug p))"
    using that by (simp add: publishPost_def skip_line_def)
  have b: "(fst (main h cfg w) = 0)
            = (\<forall>x\<in>set (run_results h cfg posts (loop_start posts w1)). x = Inr ())
          \<and> (fst (main h cfg w) = 0 \<or> fst (main h cfg w) = 1)"
    if p: "wpRequest h cfg ''/posts?per_page=1'' (probe_start cfg w) = (Inr r, w1)"
      and i: "blogs_json h = Inr posts"
  proof -
    let ?rs = "run_results h cfg posts (loop_start posts w1)"
    have "snd (fst (publishAll h cfg posts (0, 0) (loop_start posts w1))) = length (filter isl ?rs)"
      by (simp add: run_results_counts)
    moreover have "(\<not> isl x) = (x = Inr ())" for x :: "error + unit"
      by (cases x) auto
    then have "(length (filter isl ?rs) = 0) = (\<forall>x\<in>set ?rs. x = Inr ())"
      by (simp add: filter_empty_conv)
    ultimately show ?thesis
      using main_exit_code [OF p i] by auto
  qed
  have c: "publishAll h cfg (p # rest) (s, f) w =
          publishAll h cfg rest (s + 1, f) (delay 500 (console warn (skip_line p) w))"
    if "\<not> existsSync h (mdPath (slug p))"
    using a [OF that] by simp
  show ?thesis
    using a b c by blast
qed

theorem skipped_post_is_not_a_failure_witness:
  "publishPost test_host test_cfg post_c (world0 []) =
     (Inr (), \<lparr>remote = [], trace = [Console warn (skip_line post_c)]\<rparr>)
   \<and> fst (publishAll test_host test_cfg [post_c] (0, 0) (world0 [])) = (1, 0)
   \<and> fst (main (test_host\<lparr>blogs_json := Inr [post_a, post_b, post_c]\<rparr>) test_cfg
            (world0 run_three)) = 0"
proof -
  let ?h = "test_host\<lparr>blogs_json := Inr [post_a, post_b, post_c]\<rparr>"
  let ?w1 = "snd (wpRequest ?h test_cfg ''/posts?per_page=1'' (probe_start test_cfg (world0 run_three)))"
  have a: "\<not> existsSync test_host (mdPath (slug post_c))"
    by (simp add: test_defs post_c_def)
  have p: "wpRequest ?h test_cfg ''/posts?per_page=1'' (probe_start test_cfg (world0 run_three))
           = (Inr [], ?w1)"
    by (simp add: prod_eq_iff test_defs script_defs run_three_def probe_start_def)
  have i: "blogs_json ?h = Inr [post_a, post_b, post_c]"
    by simp
  have r: "run_results ?h test_cfg [post_a, post_b, post_c] (loop_start [post_a, post_b, post_c] ?w1)
           = [Inr (), Inr (), Inr ()]"
    by (simp add: test_defs script_defs run_three_def probe_start_def loop_start_def post_c_def
          show_nat.simps)
  have "(fst (main ?h test_cfg (world0 run_three)) = 0)
        = (\<forall>x\<in>set (run_results ?h test_cfg [post_a, post_b, post_c]
                         (loop_start [post_a, post_b, post_c] ?w1)). x = Inr ())"
    using skipped_post_is_not_a_failure [of ?h post_c test_cfg "world0 run_three" "[]" 0 0 "[]" ?w1
        "[post_a, post_b, post_c]"] p i
    by blast
  then have m: "fst (main ?h test_cfg (world0 run_three)) = 0"
    unfolding r by simp
  have "publishPost test_host test_cfg post_c (world0 []) =
          (Inr (), console warn (skip_line post_c) (world0 []))
        \<and> publishAll test_host test_cfg [post_c] (0, 0) (world0 []) =
          publishAll test_host test_cfg [] (0 + 1, 0)
            (delay 500 (console warn (skip_line post_c) (world0 [])))"
    using a skipped_post_is_not_a_failure [of test_host post_c test_cfg "world0 []" "[]" 0 0]
    by blast
  then show ?thesis
    using m by (simp add: console_def emit_def world0_def)
qed

subsection \<open>The base URL\<close>

text \<open>
  C8. Line 7 of \<^verbatim>\<open>src/scripts/publish.js\<close> removes one trailing slash from
  \<^verbatim>\<open>WP_URL\<close> and does nothing else. A value without a scheme stays without one:
  \<^verbatim>\<open>blog.example/\<close> becomes \<^verbatim>\<open>blog.example\<close>, and the base of every request is
  \<^verbatim>\<open>blog.example/wp-json/wp/v2\<close>.
\<close>

theorem WP_URL_no_scheme_counterexample:
  "map_option WP_URL (load_config env_no_scheme) = Some ''blog.example''
   \<and> map_option API_BASE (load_config env_no_scheme) = Some ''blog.example/wp-json/wp/v2''"
  by (simp add: load_config_def env_no_scheme_def falsy_def strip_slash_def API_BASE_def)

text \<open>
  C8, as \<^verbatim>\<open>src/scripts/publish.js\<close> has it: the configured base URL is the value of
  the environment variable with one trailing slash removed, or the value itself when it
  ends in no slash; no scheme is put in front.
\<close>

theorem WP_URL_strips_one_slash:
  assumes "load_config env = Some cfg"
  shows "env ''WP_URL'' = Some (WP_URL cfg @ ''/'')
         \<or> (env ''WP_URL'' = Some (WP_URL cfg) \<and> last (WP_URL cfg) \<noteq> CHR ''/'')"
  by (rule load_config_strip [OF assms])

theorem WP_URL_strips_one_slash_witness:
  "env_no_scheme ''WP_URL'' = Some (''blog.example'' @ ''/'')"
proof -
  have "load_config env_no_scheme =
          Some \<lparr>WP_URL = ''blog.example'', WP_USERNAME = ''editor'', WP_APP_PASSWORD = ''secret''\<rparr>"
    by (simp add: load_config_def env_no_scheme_def falsy_def strip_slash_def)
  from WP_URL_strips_one_slash [OF this] show ?thesis
    by (simp add: env_no_scheme_def)
qed

subsection \<open>The category\<close>

text \<open>
  C9. In a run over two posts the category \<^verbatim>\<open>Blog\<close> is looked up twice, once for
  each post: the script keeps no category id between posts.
\<close>

theorem category_looked_up_twice_counterexample:
  "filter (category_search test_cfg)
     (trace (snd (main test_host test_cfg (world0 run_first_fails)))) =
   [Request GET ''https://blog.example/wp-json/wp/v2/categories?search=Blog'' None,
    Request GET ''https://blog.example/wp-json/wp/v2/categories?search=Blog'' None]"
  by (simp add: test_defs script_defs main_def run_first_fails_def category_search_def
        show_nat.simps)

text \<open>
  C9, as the script has it. The category with the literal name \<^verbatim>\<open>Blog\<close> is looked up
  once for every post whose markdown file is read, so as many times in a run as the index
  has such posts; the id found for one post is not reused for the next.
\<close>

theorem category_looked_up_for_each_post:
  assumes url: "URL_valid h (API_BASE cfg @ ''/categories?search='' @ q)"
      and enc: "encodeURIComponent h ''Blog'' = Some q"
  shows "filter (category_search cfg) (issued w (snd (publishAll h cfg posts (s, f) w))) =
           replicate (length (filter (readable h) posts))
             (Request GET (API_BASE cfg @ ''/categories?search='' @ q) None)"
proof (induction posts arbitrary: s f w)
  case Nil
  show ?case by (simp add: issued_def)
next
  case (Cons p ps)
  let ?c = "Request GET (API_BASE cfg @ ''/categories?search='' @ q) None"
  obtain r w1 where r: "publishPost h cfg p w = (r, w1)"
    by (cases "publishPost h cfg p w")
  have a: "emits (\<lambda>e. True) w w1"
    using publishPost_grows [of w h cfg p] r by simp
  have b: "filter (category_search cfg) (issued w w1) = (if readable h p then [?c] else [])"
    using publishPost_category_search [OF url enc, of w p] r by simp
  have step: "filter (category_search cfg) (issued w (snd (publishAll h cfg ps (s', f') (emit e w1))))
              = (if readable h p then [?c] else []) @ replicate (length (filter (readable h) ps)) ?c"
    if "\<not> category_search cfg e" for e s' f'
  proof -
    have e1: "emits (\<lambda>x. \<not> category_search cfg x) w1 (emit e w1)"
      by (rule emits_emit) (rule that)
    have e2: "emits (\<lambda>e. True) w (emit e w1)"
      by (rule emits_trans [OF a emits_mono [OF e1]]) simp
    have "issued w (snd (publishAll h cfg ps (s', f') (emit e w1))) =
          issued w w1 @ issued w1 (emit e w1)
            @ issued (emit e w1) (snd (publishAll h cfg ps (s', f') (emit e w1)))"
      using emits_issued_trans [OF e2 publishAll_grows, of h cfg ps s' f']
        emits_issued_trans [OF a e1]
      by simp
    then show ?thesis
      using b issued_filter_none [OF e1] Cons.IH [of "emit e w1" s' f'] by simp
  qed
  show ?case
  proof (cases r)
    case (Inl e)
    let ?line = "''  Failed: '' @ quote @ title p @ quote @ '' - '' @ message e"
    have ne: "\<not> category_search cfg (Console err ?line)"
      by (simp add: category_search_def)
    have "publishAll h cfg (p # ps) (s, f) w =
          publishAll h cfg ps (s, f + 1) (emit (Console err ?line) w1)"
      using r Inl by (simp add: console_def)
    then show ?thesis
      using step [OF ne, of s "f + 1"] by simp
  next
    case (Inr u)
    have ne: "\<not> category_search cfg (Delay 500)"
      by (simp add: category_search_def)
    have "publishAll h cfg (p # ps) (s, f) w =
          publishAll h cfg ps (s + 1, f) (emit (Delay 500) w1)"
      using r Inr by (simp add: delay_def)
    then show ?thesis
      using step [OF ne, of "s + 1" f] by simp
  qed
qed

theorem category_looked_up_for_each_post_witness:
  "filter (category_search test_cfg)
     (issued (world0 []) (snd (publishAll test_host test_cfg [post_a, post_c, post_b] (0, 0)
                                 (world0 [])))) =
   [Request GET ''https://blog.example/wp-json/wp/v2/categories?search=Blog'' None,
    Request GET ''https://blog.example/wp-json/wp/v2/categories?search=Blog'' None]"
proof -
  have url: "URL_valid test_host (API_BASE test_cfg @ ''/categories?search='' @ ''Blog'')"
    by (simp add: test_defs)
  have enc: "encodeURIComponent test_host ''Blog'' = Some ''Blog''"
    by (simp add: test_defs)
  have "length (filter (readable test_host) [post_a, post_c, post_b]) = 2"
    by (simp add: readable_def test_defs post_c_def)
  then show ?thesis
    using category_looked_up_for_each_post [OF url enc, of "world0 []" "[post_a, post_c, post_b]" 0 0]
    by (simp add: numeral_2_eq_2 API_BASE_def test_cfg_def)
qed

subsection \<open>A date that does not convert\<close>

text \<open>
  C10. An entry whose date does not convert and whose markdown file does not exist is
  skipped before the date is looked at: its call returns, and the loop counts it with the
  published posts, not the failed ones.
\<close>

theorem bad_date_without_file_counterexample:
  "toISOString test_host (date post_bad_date_no_file) = None
   \<and> fst (publishPost test_host test_cfg post_bad_date_no_file (world0 [])) = Inr ()
   \<and> fst (publishAll test_host test_cfg [post_bad_date_no_file] (0, 0) (world0 [])) = (1, 0)"
  by (simp add: test_defs publishPost_def post_bad_date_no_file_def)

text \<open>
  C10, as the script has it. A post whose markdown file is read and whose date does not
  convert fails with the \<^verbatim>\<open>RangeError\<close> of \<^verbatim>\<open>toISOString\<close>: no request on the
  posts resource has been made (no existence check, no update, no create), and the loop
  counts the post as failed.
\<close>

theorem bad_date_fails_the_post:
  assumes "existsSync h (mdPath (slug p))"
      and "readFileSync h (mdPath (slug p)) = Inr markdown"
      and "toISOString h (date p) = None"
  shows "fst (publishPost h cfg p w) = Inl (RangeError ''Invalid time value'')
         \<and> filter (posts_request cfg) (issued w (snd (publishPost h cfg p w))) = []
         \<and> publishAll h cfg (p # rest) (s, f) w =
             publishAll h cfg rest (s, f + 1)
               (console err (''  Failed: '' @ quote @ title p @ quote @ '' - Invalid time value'')
                  (snd (publishPost h cfg p w)))"
proof -
  note pp = publishPost_bad_date [OF assms, of cfg w]
  have "filter (posts_request cfg) (issued w (snd (publishPost h cfg p w))) = []"
    unfolding pp snd_conv by (rule issued_filter_none [OF before_upsert_emits]) simp
  moreover have "publishAll h cfg (p # rest) (s, f) w =
             publishAll h cfg rest (s, f + 1)
               (console err (''  Failed: '' @ quote @ title p @ quote @ '' - Invalid time value'')
                  (snd (publishPost h cfg p w)))"
    by (subst pp) (simp add: pp)
  ultimately show ?thesis
    by (simp add: pp)
qed

theorem bad_date_fails_the_post_witness:
  "fst (publishPost test_host test_cfg post_bad_date (world0 run_update))
     = Inl (RangeError ''Invalid time value'')
   \<and> trace (snd (publishPost test_host test_cfg post_bad_date (world0 run_update)))
     = [Request GET ''https://blog.example/wp-json/wp/v2/categories?search=Blog'' None]
   \<and> fst (publishAll test_host test_cfg [post_bad_date] (0, 0) (world0 run_update)) = (0, 1)"
proof -
  have a: "existsSync test_host (mdPath (slug post_bad_date))"
    "readFileSync test_host (mdPath (slug post_bad_date)) = Inr ''# A''"
    "toISOString test_host (date post_bad_date) = None"
    by (simp_all add: test_defs post_bad_date_def)
  have b: "trace (snd (publishPost test_host test_cfg post_bad_date (world0 run_update)))
     = [Request GET ''https://blog.example/wp-json/wp/v2/categories?search=Blog'' None]"
    by (simp add: test_defs script_defs post_bad_date_def run_update_def)
  show ?thesis
    using bad_date_fails_the_post [OF a, of test_cfg "world0 run_update" "[]" 0 0] b
    by simp
qed

end
